theory Spec2Isabelle
  imports Main "HOL-Library.Sublist" "HOL-Library.AList"
begin

section \<open>Python values, dictionaries and errors\<close>

text \<open>
  The values that travel through \<^verbatim>\<open>InterfaceObject\<close> (base.py) are \<^verbatim>\<open>None\<close>, booleans
  (the default of \<^verbatim>\<open>settings.get('username', False)\<close>), strings, and opaque objects (the
  running user, or whatever a host stores). An opaque object is represented by the text that
  \<^verbatim>\<open>str.format\<close> renders for it; it is always truthy.
\<close>

datatype pyval = PyNone | PyBool bool | PyStr string | PyObj string

text \<open>Python truthiness, as tested by \<^verbatim>\<open>if x\<close> and \<^verbatim>\<open>not x\<close>.\<close>

fun truthy :: "pyval \<Rightarrow> bool" where
  "truthy PyNone = False"
| "truthy (PyBool b) = b"
| "truthy (PyStr s) = (s \<noteq> [])"
| "truthy (PyObj r) = True"

text \<open>What \<^verbatim>\<open>'{0}'.format(v)\<close> renders.\<close>

fun py_str :: "pyval \<Rightarrow> string" where
  "py_str PyNone = ''None''"
| "py_str (PyBool b) = (if b then ''True'' else ''False'')"
| "py_str (PyStr s) = s"
| "py_str (PyObj r) = r"

datatype error = KeyError string | AttributeError string | RemoteError string

text \<open>
  A Python dict is an association list read through \<open>map_of\<close>; \<open>dict_keys\<close> is the
  Python 2 \<^verbatim>\<open>keys()\<close>: a list, taken once, that names every key once.
\<close>

type_synonym pydict = "(string \<times> pyval) list"

definition dict_get :: "pydict \<Rightarrow> string \<Rightarrow> pyval \<Rightarrow> pyval" where
  "dict_get d k dflt = (case map_of d k of None \<Rightarrow> dflt | Some v \<Rightarrow> v)"

definition dict_contains :: "pydict \<Rightarrow> string \<Rightarrow> bool" where
  "dict_contains d k = (map_of d k \<noteq> None)"

definition dict_getitem :: "pydict \<Rightarrow> string \<Rightarrow> error + pyval" where
  "dict_getitem d k = (case map_of d k of None \<Rightarrow> Inl (KeyError k) | Some v \<Rightarrow> Inr v)"

definition dict_setitem :: "pydict \<Rightarrow> string \<Rightarrow> pyval \<Rightarrow> pydict" where
  "dict_setitem d k v = AList.update k v d"

definition dict_delitem :: "pydict \<Rightarrow> string \<Rightarrow> error + pydict" where
  "dict_delitem d k =
     (if dict_contains d k then Inr (AList.delete k d) else Inl (KeyError k))"

definition dict_keys :: "pydict \<Rightarrow> string list" where
  "dict_keys d = remdups (map fst d)"

section \<open>The collaborators: host session, remote client, default settings\<close>

text \<open>
  The session a host attaches is dict-like (\<^verbatim>\<open>get\<close>, item assignment, \<^verbatim>\<open>keys\<close>, item
  deletion). Two capabilities are optional and probed with \<^verbatim>\<open>hasattr\<close>: \<^verbatim>\<open>save\<close> and
  \<^verbatim>\<open>flush_crypto_blocks\<close>. What the host's bulk operation does to the data is the host's
  business, so it is a field of the session. \<open>sess_log\<close> records, in order, the calls that
  change or commit the session.
\<close>

datatype sess_event =
  SetItem string pyval | DelItem string | Save | FlushCryptoBlocks

record session =
  sess_data :: pydict
  sess_has_save :: bool
  sess_flush :: "(pydict \<Rightarrow> pydict) option"
  sess_log :: "sess_event list"

definition sess_get :: "session \<Rightarrow> string \<Rightarrow> pyval" where
  "sess_get s k = dict_get (sess_data s) k PyNone"

definition sess_setitem :: "session \<Rightarrow> string \<Rightarrow> pyval \<Rightarrow> session" where
  "sess_setitem s k v =
     s\<lparr>sess_data := dict_setitem (sess_data s) k v, sess_log := sess_log s @ [SetItem k v]\<rparr>"

definition sess_delitem :: "session \<Rightarrow> string \<Rightarrow> error + session" where
  "sess_delitem s k =
     (case dict_delitem (sess_data s) k of
        Inl e \<Rightarrow> Inl e
      | Inr d \<Rightarrow> Inr (s\<lparr>sess_data := d, sess_log := sess_log s @ [DelItem k]\<rparr>))"

definition sess_save :: "session \<Rightarrow> session" where
  "sess_save s = s\<lparr>sess_log := sess_log s @ [Save]\<rparr>"

definition sess_flush_crypto_blocks :: "(pydict \<Rightarrow> pydict) \<Rightarrow> session \<Rightarrow> session" where
  "sess_flush_crypto_blocks f s =
     s\<lparr>sess_data := f (sess_data s), sess_log := sess_log s @ [FlushCryptoBlocks]\<rparr>"

text \<open>
  The remote client object (\<^verbatim>\<open>CoreAPI\<close>, pyticketswitch/interface.py). base.py reads its
  \<^verbatim>\<open>username\<close> and \<^verbatim>\<open>running_user\<close> attributes and calls its \<^verbatim>\<open>start_session()\<close>.
\<close>

record core_api =
  api_username :: pyval
  api_password :: pyval
  api_url :: pyval
  api_remote_ip :: pyval
  api_remote_site :: pyval
  api_accept_language :: pyval
  api_ext_start_session_url :: pyval
  api_api_request_timeout :: pyval
  api_running_user :: pyval

text \<open>
  \<^verbatim>\<open>CoreAPI.start_session()\<close> is a parameter of the model: given the client object it either
  raises or returns a crypto block, and in both cases leaves the client object in some state.
\<close>

type_synonym remote = "core_api \<Rightarrow> (error + pyval) \<times> core_api"

text \<open>The constants of pyticketswitch/settings.py that base.py falls back to.\<close>

record default_settings =
  API_URL :: pyval
  EXT_START_SESSION_URL :: pyval
  API_REQUEST_TIMEOUT :: pyval
  NO_TIME_DESCR :: pyval
  DEFAULT_CONCESSION_DESCR :: pyval

section \<open>InterfaceObject\<close>

text \<open>
  The instance: \<^verbatim>\<open>_session\<close>, \<^verbatim>\<open>_core_api\<close>, \<^verbatim>\<open>settings\<close> and \<^verbatim>\<open>_session_store\<close>.
  \<open>remote_calls\<close> is a ghost counter of the \<^verbatim>\<open>start_session()\<close> calls issued to the
  remote client.
\<close>

record interface_object =
  session :: "session option"
  core_api :: "core_api option"
  settings :: pydict
  session_store :: pydict
  remote_calls :: nat

text \<open>
  An operation that can raise returns the error or the value, together with the instance as
  it is at that point: an exception undoes nothing.
\<close>

type_synonym 'a result = "(error + 'a) \<times> interface_object"

definition CRYPTO_PREFIX :: string where "CRYPTO_PREFIX = ''CRYPTO_BLOCK''"
definition USERNAME_PREFIX :: string where "USERNAME_PREFIX = ''USERNAME''"
definition RUNNING_USER_PREFIX :: string where "RUNNING_USER_PREFIX = ''RUNNING_USER''"

text \<open>The keyword arguments of \<^verbatim>\<open>_get_settings\<close> and \<^verbatim>\<open>_configure\<close>; each defaults to None.\<close>

record conf_args =
  a_username :: pyval
  a_password :: pyval
  a_url :: pyval
  a_no_time_descr :: pyval
  a_api_request_timeout :: pyval
  a_default_concession_descr :: pyval
  a_remote_ip :: pyval
  a_remote_site :: pyval
  a_accept_language :: pyval
  a_ext_start_session_url :: pyval

definition no_args :: conf_args where
  "no_args = \<lparr>a_username = PyNone, a_password = PyNone, a_url = PyNone,
     a_no_time_descr = PyNone, a_api_request_timeout = PyNone,
     a_default_concession_descr = PyNone, a_remote_ip = PyNone, a_remote_site = PyNone,
     a_accept_language = PyNone, a_ext_start_session_url = PyNone\<rparr>"

definition get_settings :: "conf_args \<Rightarrow> pydict" where
  "get_settings a =
     [(''username'', a_username a),
      (''password'', a_password a),
      (''remote_ip'', a_remote_ip a),
      (''remote_site'', a_remote_site a),
      (''accept_language'', a_accept_language a),
      (''url'', a_url a),
      (''ext_start_session_url'', a_ext_start_session_url a),
      (''api_request_timeout'', a_api_request_timeout a),
      (''no_time_descr'', a_no_time_descr a),
      (''default_concession_descr'', a_default_concession_descr a)]"

subsection \<open>The two stores\<close>

definition store_data :: "string \<Rightarrow> pyval \<Rightarrow> bool \<Rightarrow> interface_object \<Rightarrow> interface_object" where
  "store_data key data save_session st =
     (let st1 = st\<lparr>session_store := dict_setitem (session_store st) key data\<rparr>
      in case session st1 of
           None \<Rightarrow> st1
         | Some s \<Rightarrow>
             (let s1 = sess_setitem s key data
              in if save_session \<and> sess_has_save s1
                 then st1\<lparr>session := Some (sess_save s1)\<rparr>
                 else st1\<lparr>session := Some s1\<rparr>))"

definition retrieve_data :: "string \<Rightarrow> interface_object \<Rightarrow> pyval" where
  "retrieve_data key st =
     (let data = dict_get (session_store st) key PyNone
      in case session st of
           None \<Rightarrow> data
         | Some s \<Rightarrow> if \<not> truthy data then sess_get s key else data)"

definition get_username_session_key :: "pyval \<Rightarrow> pyval \<Rightarrow> string" where
  "get_username_session_key remote_ip remote_site =
     USERNAME_PREFIX @ ''_'' @ py_str remote_ip @ ''_'' @ py_str remote_site"

definition get_cached_username :: "pyval \<Rightarrow> pyval \<Rightarrow> interface_object \<Rightarrow> pyval" where
  "get_cached_username remote_ip remote_site st =
     retrieve_data (get_username_session_key remote_ip remote_site) st"

definition set_cached_username ::
  "pyval \<Rightarrow> pyval \<Rightarrow> pyval \<Rightarrow> interface_object \<Rightarrow> interface_object" where
  "set_cached_username username remote_ip remote_site st =
     store_data (get_username_session_key remote_ip remote_site) username True st"

definition get_running_user_session_key :: "pyval \<Rightarrow> string" where
  "get_running_user_session_key username = RUNNING_USER_PREFIX @ ''_'' @ py_str username"

definition get_cached_running_user :: "pyval \<Rightarrow> interface_object \<Rightarrow> pyval" where
  "get_cached_running_user username st =
     retrieve_data (get_running_user_session_key username) st"

definition set_cached_running_user ::
  "pyval \<Rightarrow> pyval \<Rightarrow> interface_object \<Rightarrow> interface_object" where
  "set_cached_running_user username running_user st =
     store_data (get_running_user_session_key username) running_user True st"

definition get_crypto_session_key :: "pyval \<Rightarrow> string \<Rightarrow> string" where
  "get_crypto_session_key username method_name =
     CRYPTO_PREFIX @ ''_'' @ py_str username @ ''_'' @ method_name"

subsection \<open>Purging the crypto blocks\<close>

text \<open>
  The loop over \<^verbatim>\<open>self._session_store.keys()\<close>: the key list is taken before the loop, and
  each key that starts with the prefix is deleted from the dict.
\<close>

fun del_crypto_keys :: "string list \<Rightarrow> pydict \<Rightarrow> (error + unit) \<times> pydict" where
  "del_crypto_keys [] d = (Inr (), d)"
| "del_crypto_keys (key # keys) d =
     (if prefix CRYPTO_PREFIX key
      then (case dict_delitem d key of
              Inl e \<Rightarrow> (Inl e, d)
            | Inr d' \<Rightarrow> del_crypto_keys keys d')
      else del_crypto_keys keys d)"

text \<open>The same loop over \<^verbatim>\<open>self._session.keys()\<close>, deleting from the session.\<close>

fun sess_del_crypto_keys :: "string list \<Rightarrow> session \<Rightarrow> (error + unit) \<times> session" where
  "sess_del_crypto_keys [] s = (Inr (), s)"
| "sess_del_crypto_keys (key # keys) s =
     (if prefix CRYPTO_PREFIX key
      then (case sess_delitem s key of
              Inl e \<Rightarrow> (Inl e, s)
            | Inr s' \<Rightarrow> sess_del_crypto_keys keys s')
      else sess_del_crypto_keys keys s)"

definition clear_crypto_blocks :: "interface_object \<Rightarrow> unit result" where
  "clear_crypto_blocks st =
     (case del_crypto_keys (dict_keys (session_store st)) (session_store st) of
        (Inl e, d) \<Rightarrow> (Inl e, st\<lparr>session_store := d\<rparr>)
      | (Inr _, d) \<Rightarrow>
          (let st1 = st\<lparr>session_store := d\<rparr>
           in case session st1 of
                None \<Rightarrow> (Inr (), st1)
              | Some s \<Rightarrow>
                  (case sess_flush s of
                     Some f \<Rightarrow> (Inr (), st1\<lparr>session := Some (sess_flush_crypto_blocks f s)\<rparr>)
                   | None \<Rightarrow>
                       (case sess_del_crypto_keys (dict_keys (sess_data s)) s of
                          (Inl e, s') \<Rightarrow> (Inl e, st1\<lparr>session := Some s'\<rparr>)
                        | (Inr _, s') \<Rightarrow> (Inr (), st1\<lparr>session := Some s'\<rparr>)))))"

subsection \<open>Session bootstrap\<close>

definition password_is_set :: "interface_object \<Rightarrow> bool" where
  "password_is_set st = truthy (dict_get (settings st) ''password'' PyNone)"

definition set_crypto_block :: "pyval \<Rightarrow> string \<Rightarrow> interface_object \<Rightarrow> unit result" where
  "set_crypto_block crypto_block method_name st =
     (case dict_getitem (settings st) ''username'' of
        Inl e \<Rightarrow> (Inl e, st)
      | Inr u \<Rightarrow>
          (Inr (), store_data (get_crypto_session_key u method_name) crypto_block True st))"

text \<open>
  The body of \<^verbatim>\<open>_start_session\<close> under its \<^verbatim>\<open>if\<close>: the username the remote client reports
  is adopted and cached with the running user.
\<close>

definition adopt_username :: "pyval \<Rightarrow> pyval \<Rightarrow> interface_object \<Rightarrow> unit result" where
  "adopt_username username running_user st =
     (case dict_getitem (settings st) ''remote_ip'' of
        Inl e \<Rightarrow> (Inl e, st)
      | Inr remote_ip \<Rightarrow>
          (case dict_getitem (settings st) ''remote_site'' of
             Inl e \<Rightarrow> (Inl e, st)
           | Inr remote_site \<Rightarrow>
               (let st1 = st\<lparr>settings := dict_setitem (settings st) ''username'' username\<rparr>;
                    st2 = set_cached_username username remote_ip remote_site st1
                in (Inr (), set_cached_running_user username running_user st2))))"

definition start_session :: "remote \<Rightarrow> interface_object \<Rightarrow> pyval result" where
  "start_session rem st =
     (case core_api st of
        None \<Rightarrow> (Inl (AttributeError ''start_session''), st)
      | Some api \<Rightarrow>
          (case rem api of
             (Inl e, api1) \<Rightarrow>
               (Inl e, st\<lparr>core_api := Some api1, remote_calls := Suc (remote_calls st)\<rparr>)
           | (Inr crypto_block, api1) \<Rightarrow>
               (let st1 = st\<lparr>core_api := Some api1, remote_calls := Suc (remote_calls st)\<rparr>;
                    username = api_username api1
                in case dict_getitem (settings st1) ''username'' of
                     Inl e \<Rightarrow> (Inl e, st1)
                   | Inr current \<Rightarrow>
                       (case (if \<not> truthy current \<or> username \<noteq> current
                              then adopt_username username (api_running_user api1) st1
                              else (Inr (), st1)) of
                          (Inl e, st2) \<Rightarrow> (Inl e, st2)
                        | (Inr _, st2) \<Rightarrow>
                            (if truthy crypto_block
                             then (case set_crypto_block crypto_block ''start_session'' st2 of
                                     (Inl e, st3) \<Rightarrow> (Inl e, st3)
                                   | (Inr _, st3) \<Rightarrow> (Inr crypto_block, st3))
                             else (Inr crypto_block, st2))))))"

definition get_username :: "remote \<Rightarrow> interface_object \<Rightarrow> pyval result" where
  "get_username rem st =
     (case dict_getitem (settings st) ''username'' of
        Inl e \<Rightarrow> (Inl e, st)
      | Inr current \<Rightarrow>
          (if \<not> truthy current
           then (case dict_getitem (settings st) ''remote_ip'' of
                   Inl e \<Rightarrow> (Inl e, st)
                 | Inr remote_ip \<Rightarrow>
                     (case dict_getitem (settings st) ''remote_site'' of
                        Inl e \<Rightarrow> (Inl e, st)
                      | Inr remote_site \<Rightarrow>
                          (if \<not> truthy (get_cached_username remote_ip remote_site st)
                           then (case start_session rem st of
                                   (Inl e, st1) \<Rightarrow> (Inl e, st1)
                                 | (Inr _, st1) \<Rightarrow>
                                     (dict_getitem (settings st1) ''username'', st1))
                           else (dict_getitem (settings st) ''username'', st))))
           else (dict_getitem (settings st) ''username'', st)))"

subsection \<open>The crypto-block cache\<close>

definition get_crypto_block :: "remote \<Rightarrow> string \<Rightarrow> bool \<Rightarrow> interface_object \<Rightarrow> pyval result" where
  "get_crypto_block rem method_name password_required st =
     (if password_required \<or> (\<not> password_required \<and> \<not> password_is_set st)
      then (case (if \<not> truthy (dict_get (settings st) ''username'' (PyBool False))
                  then start_session rem st
                  else (Inr PyNone, st)) of
              (Inl e, st1) \<Rightarrow> (Inl e, st1)
            | (Inr start_session_crypto, st1) \<Rightarrow>
                (case dict_getitem (settings st1) ''username'' of
                   Inl e \<Rightarrow> (Inl e, st1)
                 | Inr u \<Rightarrow>
                     (let crypto_block = retrieve_data (get_crypto_session_key u method_name) st1
                      in if \<not> truthy crypto_block \<and> method_name = ''start_session''
                         then (if truthy start_session_crypto
                               then (Inr start_session_crypto, st1)
                               else start_session rem st1)
                         else (Inr crypto_block, st1))))
      else (Inr PyNone, st))"

text \<open>
  A transactional object handed to the per-object operations; base.py only calls its
  \<^verbatim>\<open>_get_cache_key()\<close>, whose text goes into the key.
\<close>

datatype cached_object = CachedObject (get_cache_key: string)

definition get_crypto_object_key :: "pyval \<Rightarrow> string \<Rightarrow> cached_object \<Rightarrow> string" where
  "get_crypto_object_key username method_name interface_object =
     get_crypto_session_key username method_name @ ''_'' @ get_cache_key interface_object"

text \<open>
  The loop of \<^verbatim>\<open>_set_crypto_for_objects\<close>: \<open>n\<close> is \<^verbatim>\<open>len(interface_objects)\<close>, \<open>i\<close> the
  index \<^verbatim>\<open>enumerate\<close> gives.
\<close>

fun set_crypto_loop ::
  "pyval \<Rightarrow> string \<Rightarrow> int \<Rightarrow> nat \<Rightarrow> cached_object list \<Rightarrow> interface_object \<Rightarrow> unit result" where
  "set_crypto_loop crypto_block method_name n i [] st = (Inr (), st)"
| "set_crypto_loop crypto_block method_name n i (obj # objs) st =
     (case dict_getitem (settings st) ''username'' of
        Inl e \<Rightarrow> (Inl e, st)
      | Inr u \<Rightarrow>
          (let key = get_crypto_object_key u method_name obj;
               save_session = (int i = n - 1)
           in set_crypto_loop crypto_block method_name n (Suc i) objs
                (store_data key crypto_block save_session st)))"

definition set_crypto_for_objects ::
  "pyval \<Rightarrow> string \<Rightarrow> cached_object list \<Rightarrow> interface_object \<Rightarrow> unit result" where
  "set_crypto_for_objects crypto_block method_name interface_objects st =
     set_crypto_loop crypto_block method_name (int (length interface_objects)) 0
       interface_objects st"

definition set_crypto_for_object ::
  "pyval \<Rightarrow> string \<Rightarrow> cached_object \<Rightarrow> interface_object \<Rightarrow> unit result" where
  "set_crypto_for_object crypto_block method_name interface_object st =
     (case dict_getitem (settings st) ''username'' of
        Inl e \<Rightarrow> (Inl e, st)
      | Inr u \<Rightarrow>
          (Inr (), store_data (get_crypto_object_key u method_name interface_object)
                     crypto_block True st))"

definition get_crypto_block_for_object ::
  "remote \<Rightarrow> string \<Rightarrow> cached_object \<Rightarrow> interface_object \<Rightarrow> pyval result" where
  "get_crypto_block_for_object rem method_name interface_object st =
     (case (if \<not> truthy (dict_get (settings st) ''username'' (PyBool False))
            then start_session rem st
            else (Inr PyNone, st)) of
        (Inl e, st1) \<Rightarrow> (Inl e, st1)
      | (Inr _, st1) \<Rightarrow>
          (case dict_getitem (settings st1) ''username'' of
             Inl e \<Rightarrow> (Inl e, st1)
           | Inr u \<Rightarrow>
               (Inr (retrieve_data (get_crypto_object_key u method_name interface_object) st1),
                st1)))"

subsection \<open>Configuration and construction\<close>

text \<open>
  Modelled from the spec: the constructor of \<^verbatim>\<open>CoreAPI\<close> (pyticketswitch/interface.py, not
  among the sources) keeps the arguments it is given; the running user is unknown until
  the session is established.
\<close>

definition CoreAPI :: "conf_args \<Rightarrow> core_api" where
  "CoreAPI a =
     \<lparr>api_username = a_username a, api_password = a_password a, api_url = a_url a,
      api_remote_ip = a_remote_ip a, api_remote_site = a_remote_site a,
      api_accept_language = a_accept_language a,
      api_ext_start_session_url = a_ext_start_session_url a,
      api_api_request_timeout = a_api_request_timeout a,
      api_running_user = PyNone\<rparr>"

text \<open>
  The test of \<^verbatim>\<open>_configure\<close> on one identity field: the key is in the settings, its old
  value is truthy, and the new value is another one.
\<close>

definition identity_changed :: "pydict \<Rightarrow> string \<Rightarrow> pyval \<Rightarrow> bool" where
  "identity_changed old_settings k new =
     (case map_of old_settings k of
        None \<Rightarrow> False
      | Some old \<Rightarrow> truthy old \<and> new \<noteq> old)"

text \<open>
  The first statement of \<^verbatim>\<open>_configure\<close>: without a username, but with a remote IP and a
  remote site, the username is the one cached for the two.
\<close>

definition configured_username :: "conf_args \<Rightarrow> interface_object \<Rightarrow> pyval" where
  "configured_username a st =
     (if \<not> truthy (a_username a) \<and> truthy (a_remote_ip a) \<and> truthy (a_remote_site a)
      then get_cached_username (a_remote_ip a) (a_remote_site a) st
      else a_username a)"

text \<open>The fallbacks of \<^verbatim>\<open>_configure\<close> to the default settings, for the arguments that are falsy.\<close>

definition apply_defaults :: "default_settings \<Rightarrow> conf_args \<Rightarrow> conf_args" where
  "apply_defaults ds a =
     a\<lparr>a_url := (if \<not> truthy (a_url a) then API_URL ds else a_url a),
       a_ext_start_session_url :=
         (if \<not> truthy (a_ext_start_session_url a)
          then EXT_START_SESSION_URL ds else a_ext_start_session_url a),
       a_api_request_timeout :=
         (if \<not> truthy (a_api_request_timeout a)
          then API_REQUEST_TIMEOUT ds else a_api_request_timeout a),
       a_no_time_descr :=
         (if \<not> truthy (a_no_time_descr a) then NO_TIME_DESCR ds else a_no_time_descr a),
       a_default_concession_descr :=
         (if \<not> truthy (a_default_concession_descr a)
          then DEFAULT_CONCESSION_DESCR ds else a_default_concession_descr a)\<rparr>"

definition configure :: "default_settings \<Rightarrow> conf_args \<Rightarrow> interface_object \<Rightarrow> unit result" where
  "configure ds a st =
     (let username = configured_username a st
      in case (if identity_changed (settings st) ''username'' username
                  \<or> identity_changed (settings st) ''remote_ip'' (a_remote_ip a)
                  \<or> identity_changed (settings st) ''remote_site'' (a_remote_site a)
               then clear_crypto_blocks st
               else (Inr (), st)) of
           (Inl e, st1) \<Rightarrow> (Inl e, st1)
         | (Inr _, st1) \<Rightarrow>
             (let a1 = apply_defaults ds (a\<lparr>a_username := username\<rparr>)
              in (Inr (), st1\<lparr>settings := get_settings a1, core_api := Some (CoreAPI a1)\<rparr>)))"

text \<open>
  The keyword arguments of the constructor: the four internal ones, each absent or given,
  and the remaining ones, which go to \<^verbatim>\<open>_configure\<close> when there are any.
\<close>

record init_kwargs =
  k_session :: "session option"
  k_core_api :: "core_api option"
  k_settings :: "pydict option"
  k_session_store :: "pydict option"
  k_conf :: "conf_args option"

definition init :: "default_settings \<Rightarrow> init_kwargs \<Rightarrow> unit result" where
  "init ds kw =
     (let st = \<lparr>session = k_session kw,
                core_api = k_core_api kw,
                settings = (case k_settings kw of None \<Rightarrow> get_settings no_args | Some d \<Rightarrow> d),
                session_store = (case k_session_store kw of None \<Rightarrow> [] | Some d \<Rightarrow> d),
                remote_calls = 0\<rparr>
      in case k_conf kw of
           None \<Rightarrow> (Inr (), st)
         | Some a \<Rightarrow> configure ds a st)"

section \<open>Concrete instances\<close>

definition ex_session :: session where
  "ex_session =
     \<lparr>sess_data = [(''k'', PyStr ''remote'')], sess_has_save = True, sess_flush = None,
      sess_log = []\<rparr>"

definition ex_instance :: interface_object where
  "ex_instance =
     \<lparr>session = Some ex_session, core_api = None, settings = get_settings no_args,
      session_store = [(''a'', PyStr ''local''), (''k'', PyStr [])], remote_calls = 0\<rparr>"

text \<open>An instance configured for the user bob, with a session that can be saved.\<close>

definition ex_user_instance :: interface_object where
  "ex_user_instance =
     \<lparr>session = Some ex_session, core_api = None,
      settings = get_settings (no_args\<lparr>a_username := PyStr ''bob''\<rparr>),
      session_store = [], remote_calls = 0\<rparr>"

definition basket1 :: cached_object where "basket1 = CachedObject ''basket1''"
definition basket2 :: cached_object where "basket2 = CachedObject ''basket2''"

text \<open>A remote client whose \<^verbatim>\<open>start_session()\<close> raises.\<close>

definition ex_remote_fail :: remote where
  "ex_remote_fail api = (Inl (RemoteError ''timed out''), api)"

text \<open>An instance that is configured for no user yet, with a remote client attached.\<close>

definition ex_anon_instance :: interface_object where
  "ex_anon_instance =
     \<lparr>session = Some ex_session, core_api = Some (CoreAPI no_args),
      settings = get_settings no_args,
      session_store = [(''a'', PyStr ''local'')], remote_calls = 0\<rparr>"

text \<open>
  A session that holds a crypto block and a cached username; the same session with a bulk
  operation that drops every key with the crypto prefix.
\<close>

definition ex_crypto_session :: session where
  "ex_crypto_session =
     \<lparr>sess_data = [(''CRYPTO_BLOCK_bob_reserve'', PyStr ''blk2''),
                   (''USERNAME_10.0.0.1_example.com'', PyStr ''bob'')],
      sess_has_save = True, sess_flush = None, sess_log = []\<rparr>"

definition ex_flush :: "pydict \<Rightarrow> pydict" where
  "ex_flush d = filter (\<lambda>(k, v). \<not> prefix CRYPTO_PREFIX k) d"

definition ex_flush_session :: session where
  "ex_flush_session = ex_crypto_session\<lparr>sess_flush := Some ex_flush\<rparr>"

definition ex_site_args :: conf_args where
  "ex_site_args =
     no_args\<lparr>a_remote_ip := PyStr ''10.0.0.1'', a_remote_site := PyStr ''example.com''\<rparr>"

text \<open>An instance of the user bob that has cached blocks, over a given session.\<close>

definition ex_cached_instance :: "session option \<Rightarrow> interface_object" where
  "ex_cached_instance s =
     \<lparr>session = s, core_api = None,
      settings = get_settings (ex_site_args\<lparr>a_username := PyStr ''bob''\<rparr>),
      session_store = [(''CRYPTO_BLOCK_bob_start_session'', PyStr ''blk''),
                       (''RUNNING_USER_bob'', PyObj ''running user'')],
      remote_calls = 0\<rparr>"

text \<open>
  Two remote clients that establish a session for the guest user guest1: one returns a
  crypto block, the other returns None for it.
\<close>

definition ex_remote_guest :: remote where
  "ex_remote_guest api =
     (Inr (PyStr ''boot''),
      api\<lparr>api_username := PyStr ''guest1'', api_running_user := PyObj ''running user''\<rparr>)"

definition ex_remote_noblock :: remote where
  "ex_remote_noblock api =
     (Inr PyNone,
      api\<lparr>api_username := PyStr ''guest1'', api_running_user := PyObj ''running user''\<rparr>)"

definition ex_defaults :: default_settings where
  "ex_defaults =
     \<lparr>API_URL = PyStr ''https://api.example.com'', EXT_START_SESSION_URL = PyNone,
      API_REQUEST_TIMEOUT = PyStr ''60'', NO_TIME_DESCR = PyStr ''TBC'',
      DEFAULT_CONCESSION_DESCR = PyStr ''Standard''\<rparr>"

definition ex_empty_session :: session where
  "ex_empty_session =
     \<lparr>sess_data = [], sess_has_save = True, sess_flush = None, sess_log = []\<rparr>"

definition ex_first_kwargs :: init_kwargs where
  "ex_first_kwargs =
     \<lparr>k_session = Some ex_empty_session, k_core_api = None, k_settings = None,
      k_session_store = None, k_conf = Some ex_site_args\<rparr>"

definition ex_bob_cached :: interface_object where
  "ex_bob_cached =
     \<lparr>session = None, core_api = None,
      settings = get_settings (no_args\<lparr>a_username := PyStr ''bob''\<rparr>),
      session_store = [(''CRYPTO_BLOCK_bob_reserve'', PyStr ''blk'')], remote_calls = 0\<rparr>"

definition ex_bob_moved_args :: conf_args where
  "ex_bob_moved_args = no_args\<lparr>a_username := PyStr ''bob'', a_remote_ip := PyStr ''10.0.0.1''\<rparr>"

definition ex_alice_args :: conf_args where
  "ex_alice_args = ex_site_args\<lparr>a_username := PyStr ''alice''\<rparr>"

text \<open>
  Two instances over one session, both constructed for the same remote IP and remote site
  before either has a username: the first as constructed, and the second as it stands once
  the first has run \<^verbatim>\<open>get_username\<close>, the session they share being the one the first left.
\<close>

definition ex_first_instance :: interface_object where
  "ex_first_instance = snd (init ex_defaults ex_first_kwargs)"

definition ex_second_instance :: interface_object where
  "ex_second_instance =
     ex_first_instance\<lparr>session := session (snd (get_username ex_remote_guest ex_first_instance))\<rparr>"

section \<open>Dictionaries and the two stores: basic facts\<close>

lemma map_of_dict_setitem: "map_of (dict_setitem d k v) = (map_of d)(k \<mapsto> v)"
  by (simp add: dict_setitem_def update_conv')

lemma dict_get_setitem:
  "dict_get (dict_setitem d k v) k' dflt = (if k' = k then v else dict_get d k' dflt)"
  by (simp add: dict_get_def map_of_dict_setitem)

lemma resolved_getitem:
  "truthy (dict_get d k (PyBool False)) \<Longrightarrow> \<exists>u. dict_getitem d k = Inr u \<and> truthy u"
  by (auto simp: dict_get_def dict_getitem_def split: option.splits)

lemma sess_setitem_fields:
  "sess_has_save (sess_setitem s k v) = sess_has_save s"
  "sess_flush (sess_setitem s k v) = sess_flush s"
  "sess_log (sess_setitem s k v) = sess_log s @ [SetItem k v]"
  "map_of (sess_data (sess_setitem s k v)) = (map_of (sess_data s))(k \<mapsto> v)"
  by (simp_all add: sess_setitem_def map_of_dict_setitem)

lemma sess_save_fields:
  "sess_has_save (sess_save s) = sess_has_save s"
  "sess_flush (sess_save s) = sess_flush s"
  "sess_log (sess_save s) = sess_log s @ [Save]"
  "sess_data (sess_save s) = sess_data s"
  by (simp_all add: sess_save_def)

lemma sess_get_setitem:
  "sess_get (sess_setitem s k v) k' = (if k' = k then v else sess_get s k')"
  by (simp add: sess_get_def sess_setitem_def dict_get_setitem)

lemma sess_get_save: "sess_get (sess_save s) k = sess_get s k"
  by (simp add: sess_get_def sess_save_def)

lemma store_data_settings: "settings (store_data k v b st) = settings st"
  by (simp add: store_data_def Let_def split: option.splits)

lemma store_data_core_api: "core_api (store_data k v b st) = core_api st"
  by (simp add: store_data_def Let_def split: option.splits)

lemma store_data_remote_calls: "remote_calls (store_data k v b st) = remote_calls st"
  by (simp add: store_data_def Let_def split: option.splits)

lemma store_data_session_store:
  "session_store (store_data k v b st) = dict_setitem (session_store st) k v"
  by (simp add: store_data_def Let_def split: option.splits)

lemma store_data_session:
  "session (store_data k v b st) =
     (case session st of
        None \<Rightarrow> None
      | Some s \<Rightarrow> Some (if b \<and> sess_has_save s then sess_save (sess_setitem s k v)
                       else sess_setitem s k v))"
  by (simp add: store_data_def Let_def sess_setitem_def split: option.splits)

lemma retrieve_data_store_data:
  "retrieve_data k' (store_data k v b st) = (if k' = k then v else retrieve_data k' st)"
  by (simp add: retrieve_data_def store_data_session store_data_session_store
      dict_get_setitem sess_get_setitem sess_get_save Let_def split: option.splits)

lemma crypto_object_key_inj:
  "get_crypto_object_key u m a = get_crypto_object_key u m b
     \<longleftrightarrow> get_cache_key a = get_cache_key b"
  by (simp add: get_crypto_object_key_def)

lemma ex_user_resolved:
  "truthy (dict_get (settings ex_user_instance) ''username'' (PyBool False))"
  by (simp add: ex_user_instance_def get_settings_def no_args_def dict_get_def)

lemma ex_user_username:
  "dict_getitem (settings ex_user_instance) ''username'' = Inr (PyStr ''bob'')"
  by (simp add: ex_user_instance_def get_settings_def no_args_def dict_getitem_def)

section \<open>Reading the two stores\<close>

text \<open>
  C10. \<^verbatim>\<open>_retrieve_data\<close> returns the value of the local store when that value is truthy.
  When the local store has no value for the key, or a falsy one (None, the empty string),
  and a session is attached, the result is what the session's \<^verbatim>\<open>get\<close> gives for the key.
  A key that neither store holds yields None; the operation has no error outcome at all.
\<close>

theorem retrieve_data_local_then_session:
  "(truthy (dict_get (session_store st) key PyNone) \<longrightarrow>
      retrieve_data key st = dict_get (session_store st) key PyNone)
   \<and> (\<not> truthy (dict_get (session_store st) key PyNone) \<and> session st = Some s \<longrightarrow>
      retrieve_data key st = sess_get s key)
   \<and> (map_of (session_store st) key = None
        \<and> (\<forall>s'. session st = Some s' \<longrightarrow> map_of (sess_data s') key = None) \<longrightarrow>
      retrieve_data key st = PyNone)"
  by (auto simp: retrieve_data_def sess_get_def dict_get_def Let_def split: option.splits)

theorem retrieve_data_local_then_session_witness:
  "truthy (dict_get (session_store ex_instance) ''a'' PyNone)
   \<and> retrieve_data ''a'' ex_instance = PyStr ''local''
   \<and> \<not> truthy (dict_get (session_store ex_instance) ''k'' PyNone)
   \<and> session ex_instance = Some ex_session
   \<and> retrieve_data ''k'' ex_instance = PyStr ''remote''
   \<and> map_of (session_store ex_instance) ''zz'' = None
   \<and> map_of (sess_data ex_session) ''zz'' = None
   \<and> retrieve_data ''zz'' ex_instance = PyNone"
  using retrieve_data_local_then_session [where st = ex_instance and key = "''a''"]
        retrieve_data_local_then_session
          [where st = ex_instance and key = "''k''" and s = ex_session]
        retrieve_data_local_then_session [where st = ex_instance and key = "''zz''"]
  by (simp add: ex_instance_def ex_session_def dict_get_def sess_get_def)

section \<open>Per-object crypto blocks\<close>

text \<open>
  C7. On an instance whose settings hold a resolved username, \<^verbatim>\<open>_set_crypto_for_object\<close>
  completes, and \<^verbatim>\<open>_get_crypto_block_for_object\<close> for the same method name and the same
  object, run right after it, returns exactly the block that was stored (whatever the
  block is, truthy or not, session attached or not) and changes nothing.
\<close>

theorem crypto_block_round_trip:
  assumes "truthy (dict_get (settings st) ''username'' (PyBool False))"
  shows "\<exists>st1. set_crypto_for_object crypto_block method_name obj st = (Inr (), st1)
           \<and> get_crypto_block_for_object rem method_name obj st1 = (Inr crypto_block, st1)"
proof -
  from assms obtain u where u: "dict_getitem (settings st) ''username'' = Inr u"
    using resolved_getitem by blast
  let ?key = "get_crypto_object_key u method_name obj"
  let ?st1 = "store_data ?key crypto_block True st"
  have stored: "set_crypto_for_object crypto_block method_name obj st = (Inr (), ?st1)"
    by (simp add: set_crypto_for_object_def u)
  have "get_crypto_block_for_object rem method_name obj ?st1 = (Inr crypto_block, ?st1)"
    using assms u
    by (simp add: get_crypto_block_for_object_def store_data_settings retrieve_data_store_data)
  with stored show ?thesis by blast
qed

theorem crypto_block_round_trip_witness:
  "truthy (dict_get (settings ex_user_instance) ''username'' (PyBool False))
   \<and> (\<exists>st1. set_crypto_for_object (PyStr ''blk'') ''reserve'' basket1 ex_user_instance
               = (Inr (), st1)
         \<and> get_crypto_block_for_object ex_remote_fail ''reserve'' basket1 st1
               = (Inr (PyStr ''blk''), st1))"
  using crypto_block_round_trip [OF ex_user_resolved] ex_user_resolved by simp

text \<open>
  C6. Two objects whose \<^verbatim>\<open>_get_cache_key()\<close> differ get different storage keys, for one
  and the same username and method name. So, with a resolved username, a block stored by
  \<^verbatim>\<open>_set_crypto_for_object\<close> for object b is not what \<^verbatim>\<open>_get_crypto_block_for_object\<close>
  returns for object a: that call still returns what it returned before the store.
\<close>

theorem object_keys_do_not_collide:
  assumes "get_cache_key a \<noteq> get_cache_key b"
    and "truthy (dict_get (settings st) ''username'' (PyBool False))"
  shows "get_crypto_object_key username method_name a
           \<noteq> get_crypto_object_key username method_name b
     \<and> (\<exists>st1. set_crypto_for_object crypto_block method_name b st = (Inr (), st1)
           \<and> get_crypto_block_for_object rem method_name a st1
               = (fst (get_crypto_block_for_object rem method_name a st), st1))"
proof -
  from assms(2) obtain u where u: "dict_getitem (settings st) ''username'' = Inr u"
    using resolved_getitem by blast
  let ?st1 = "store_data (get_crypto_object_key u method_name b) crypto_block True st"
  have "set_crypto_for_object crypto_block method_name b st = (Inr (), ?st1)"
    by (simp add: set_crypto_for_object_def u)
  moreover have "get_crypto_block_for_object rem method_name a ?st1
                 = (fst (get_crypto_block_for_object rem method_name a st), ?st1)"
    using assms u
    by (simp add: get_crypto_block_for_object_def store_data_settings retrieve_data_store_data
        crypto_object_key_inj)
  moreover have "get_crypto_object_key username method_name a
           \<noteq> get_crypto_object_key username method_name b"
    using assms(1) by (simp add: crypto_object_key_inj)
  ultimately show ?thesis by blast
qed

theorem object_keys_do_not_collide_witness:
  "get_cache_key basket1 \<noteq> get_cache_key basket2
   \<and> truthy (dict_get (settings ex_user_instance) ''username'' (PyBool False))
   \<and> get_crypto_object_key (PyStr ''bob'') ''reserve'' basket1
        \<noteq> get_crypto_object_key (PyStr ''bob'') ''reserve'' basket2
   \<and> (\<exists>st1. set_crypto_for_object (PyStr ''blk'') ''reserve'' basket2 ex_user_instance
               = (Inr (), st1)
         \<and> get_crypto_block_for_object ex_remote_fail ''reserve'' basket1 st1
               = (fst (get_crypto_block_for_object ex_remote_fail ''reserve'' basket1
                         ex_user_instance), st1))"
proof -
  have d: "get_cache_key basket1 \<noteq> get_cache_key basket2"
    by (simp add: basket1_def basket2_def)
  from object_keys_do_not_collide [OF d ex_user_resolved] d ex_user_resolved
  show ?thesis by simp
qed

section \<open>A batch of objects\<close>

lemma set_crypto_loop_run:
  assumes "dict_getitem (settings st) ''username'' = Inr u"
    and "session st = Some s" and "sess_has_save s"
    and "int i + int (length objs) = n"
  shows "\<exists>st' s'. set_crypto_loop blk m n i objs st = (Inr (), st')
     \<and> session st' = Some s'
     \<and> sess_log s' = sess_log s @ map (\<lambda>obj. SetItem (get_crypto_object_key u m obj) blk) objs
                        @ (if objs = [] then [] else [Save])
     \<and> map_of (session_store st') =
         (\<lambda>k. if k \<in> (\<lambda>obj. get_crypto_object_key u m obj) ` set objs then Some blk
              else map_of (session_store st) k)
     \<and> map_of (sess_data s') =
         (\<lambda>k. if k \<in> (\<lambda>obj. get_crypto_object_key u m obj) ` set objs then Some blk
              else map_of (sess_data s) k)"
  using assms
proof (induction objs arbitrary: i st s)
  case Nil
  then show ?case by simp
next
  case (Cons obj objs)
  let ?key = "get_crypto_object_key u m obj"
  let ?save = "int i = n - 1"
  let ?st1 = "store_data ?key blk ?save st"
  let ?s1 = "if ?save \<and> sess_has_save s then sess_save (sess_setitem s ?key blk)
             else sess_setitem s ?key blk"
  have save_iff: "?save \<longleftrightarrow> objs = []"
    using Cons.prems(4) by auto
  have step: "set_crypto_loop blk m n i (obj # objs) st
                = set_crypto_loop blk m n (Suc i) objs ?st1"
    using Cons.prems(1) by simp
  have s1: "session ?st1 = Some ?s1"
    using Cons.prems(2) by (simp add: store_data_session)
  have u1: "dict_getitem (settings ?st1) ''username'' = Inr u"
    using Cons.prems(1) by (simp add: store_data_settings)
  have hs1: "sess_has_save ?s1"
    using Cons.prems(3) by (simp add: sess_setitem_fields sess_save_fields)
  have n1: "int (Suc i) + int (length objs) = n"
    using Cons.prems(4) by simp
  from Cons.IH [OF u1 s1 hs1 n1]
  obtain st' s' where r: "set_crypto_loop blk m n (Suc i) objs ?st1 = (Inr (), st')"
    and s': "session st' = Some s'"
    and log: "sess_log s' = sess_log ?s1
                @ map (\<lambda>obj. SetItem (get_crypto_object_key u m obj) blk) objs
                @ (if objs = [] then [] else [Save])"
    and loc: "map_of (session_store st') =
         (\<lambda>k. if k \<in> (\<lambda>obj. get_crypto_object_key u m obj) ` set objs then Some blk
              else map_of (session_store ?st1) k)"
    and ses: "map_of (sess_data s') =
         (\<lambda>k. if k \<in> (\<lambda>obj. get_crypto_object_key u m obj) ` set objs then Some blk
              else map_of (sess_data ?s1) k)"
    by blast
  have log': "sess_log s' = sess_log s
                @ map (\<lambda>obj. SetItem (get_crypto_object_key u m obj) blk) (obj # objs)
                @ (if obj # objs = [] then [] else [Save])"
    using log save_iff Cons.prems(3) by (simp add: sess_setitem_fields sess_save_fields)
  have loc': "map_of (session_store st') =
         (\<lambda>k. if k \<in> (\<lambda>obj. get_crypto_object_key u m obj) ` set (obj # objs) then Some blk
              else map_of (session_store st) k)"
    using loc by (auto simp: store_data_session_store map_of_dict_setitem fun_eq_iff)
  have ses': "map_of (sess_data s') =
         (\<lambda>k. if k \<in> (\<lambda>obj. get_crypto_object_key u m obj) ` set (obj # objs) then Some blk
              else map_of (sess_data s) k)"
    using ses by (auto simp: sess_setitem_fields sess_save_fields fun_eq_iff)
  from step r s' log' loc' ses' show ?case by metis
qed

text \<open>
  C4. For a non-empty list of objects, on an instance with a session that has \<^verbatim>\<open>save\<close>,
  \<^verbatim>\<open>_set_crypto_for_objects\<close> completes; the calls it makes on the session are one item
  assignment per object, in list order, followed by a single \<^verbatim>\<open>save()\<close>, which therefore
  comes with the write for the last object and with none of the earlier ones. Afterwards
  the local store and the session both hold the block under the key of every object.
\<close>

theorem batch_commits_once_on_last:
  assumes "interface_objects \<noteq> []"
    and "dict_getitem (settings st) ''username'' = Inr u"
    and "session st = Some s" and "sess_has_save s"
  shows "\<exists>st' s'.
       set_crypto_for_objects crypto_block method_name interface_objects st = (Inr (), st')
     \<and> session st' = Some s'
     \<and> sess_log s' = sess_log s
          @ map (\<lambda>obj. SetItem (get_crypto_object_key u method_name obj) crypto_block)
              interface_objects
          @ [Save]
     \<and> (\<forall>obj \<in> set interface_objects.
           map_of (session_store st') (get_crypto_object_key u method_name obj)
             = Some crypto_block
         \<and> map_of (sess_data s') (get_crypto_object_key u method_name obj)
             = Some crypto_block)"
proof -
  have "int 0 + int (length interface_objects) = int (length interface_objects)" by simp
  from set_crypto_loop_run [OF assms(2) assms(3) assms(4) this, of crypto_block method_name]
  show ?thesis using assms(1) unfolding set_crypto_for_objects_def
    by (auto simp: image_iff)
qed

theorem batch_commits_once_on_last_witness:
  "[basket1, basket2] \<noteq> []
   \<and> dict_getitem (settings ex_user_instance) ''username'' = Inr (PyStr ''bob'')
   \<and> session ex_user_instance = Some ex_session \<and> sess_has_save ex_session
   \<and> (\<exists>st' s'.
         set_crypto_for_objects (PyStr ''blk'') ''reserve'' [basket1, basket2] ex_user_instance
           = (Inr (), st')
       \<and> session st' = Some s'
       \<and> sess_log s' =
           [SetItem ''CRYPTO_BLOCK_bob_reserve_basket1'' (PyStr ''blk''),
            SetItem ''CRYPTO_BLOCK_bob_reserve_basket2'' (PyStr ''blk''), Save]
       \<and> map_of (session_store st') ''CRYPTO_BLOCK_bob_reserve_basket1'' = Some (PyStr ''blk'')
       \<and> map_of (sess_data s') ''CRYPTO_BLOCK_bob_reserve_basket2'' = Some (PyStr ''blk''))"
proof -
  have ne: "[basket1, basket2] \<noteq> []" by simp
  have s: "session ex_user_instance = Some ex_session"
    by (simp add: ex_user_instance_def)
  have hs: "sess_has_save ex_session" by (simp add: ex_session_def)
  have lg: "sess_log ex_session = []" by (simp add: ex_session_def)
  from batch_commits_once_on_last [OF ne ex_user_username s hs, of "PyStr ''blk''" "''reserve''"]
  show ?thesis using ex_user_username s hs lg
    by (auto simp: get_crypto_object_key_def get_crypto_session_key_def CRYPTO_PREFIX_def
        basket1_def basket2_def)
qed

section \<open>A bootstrap that fails\<close>

text \<open>
  C5. When the remote \<^verbatim>\<open>start_session()\<close> raises, \<^verbatim>\<open>_start_session\<close> ends with that same
  error, and the local store, the session (its data and the calls made on it) and the
  settings are what they were before the call.
\<close>

theorem failed_bootstrap_stores_nothing:
  assumes "core_api st = Some api" and "fst (rem api) = Inl e"
  shows "\<exists>st1. start_session rem st = (Inl e, st1)
           \<and> session_store st1 = session_store st \<and> session st1 = session st
           \<and> settings st1 = settings st"
  using assms by (cases "rem api") (simp add: start_session_def)

theorem failed_bootstrap_stores_nothing_witness:
  "core_api ex_anon_instance = Some (CoreAPI no_args)
   \<and> fst (ex_remote_fail (CoreAPI no_args)) = Inl (RemoteError ''timed out'')
   \<and> (\<exists>st1. start_session ex_remote_fail ex_anon_instance = (Inl (RemoteError ''timed out''), st1)
         \<and> session_store st1 = session_store ex_anon_instance
         \<and> session st1 = session ex_anon_instance
         \<and> settings st1 = settings ex_anon_instance)"
proof -
  have c: "core_api ex_anon_instance = Some (CoreAPI no_args)"
    by (simp add: ex_anon_instance_def)
  have f: "fst (ex_remote_fail (CoreAPI no_args)) = Inl (RemoteError ''timed out'')"
    by (simp add: ex_remote_fail_def)
  from failed_bootstrap_stores_nothing [where rem = ex_remote_fail, OF c f] c f
  show ?thesis by simp
qed

section \<open>Purging the crypto blocks\<close>

lemma dict_delitem_present:
  "k \<in> fst ` set d \<Longrightarrow> dict_delitem d k = Inr (filter (\<lambda>(k', v). k' \<noteq> k) d)"
  by (auto simp: dict_delitem_def dict_contains_def AList.delete_eq map_of_eq_None_iff
      intro!: filter_cong)

lemma del_crypto_keys_run:
  assumes "distinct ks" and "set ks \<subseteq> fst ` set d"
  shows "del_crypto_keys ks d =
           (Inr (), filter (\<lambda>(k, v). \<not> (k \<in> set ks \<and> prefix CRYPTO_PREFIX k)) d)"
  using assms
proof (induction ks arbitrary: d)
  case Nil
  then show ?case by simp
next
  case (Cons key ks)
  show ?case
  proof (cases "prefix CRYPTO_PREFIX key")
    case True
    let ?d' = "filter (\<lambda>(k', v). k' \<noteq> key) d"
    have del: "dict_delitem d key = Inr ?d'"
      using Cons.prems(2) by (simp add: dict_delitem_present)
    have sub: "set ks \<subseteq> fst ` set ?d'"
      using Cons.prems by force
    have "del_crypto_keys ks ?d' =
           (Inr (), filter (\<lambda>(k, v). \<not> (k \<in> set ks \<and> prefix CRYPTO_PREFIX k)) ?d')"
      using Cons.IH [OF _ sub] Cons.prems(1) by simp
    then show ?thesis using True del
      by (auto simp: case_prod_unfold intro!: filter_cong)
  next
    case False
    have sub: "set ks \<subseteq> fst ` set d" using Cons.prems(2) by simp
    have "del_crypto_keys ks d =
           (Inr (), filter (\<lambda>(k, v). \<not> (k \<in> set ks \<and> prefix CRYPTO_PREFIX k)) d)"
      using Cons.IH [OF _ sub] Cons.prems(1) by simp
    then show ?thesis using False
      by (auto simp: case_prod_unfold intro!: filter_cong)
  qed
qed

lemma del_crypto_keys_all:
  "del_crypto_keys (dict_keys d) d = (Inr (), filter (\<lambda>(k, v). \<not> prefix CRYPTO_PREFIX k) d)"
proof -
  have "del_crypto_keys (dict_keys d) d =
           (Inr (), filter (\<lambda>(k, v). \<not> (k \<in> set (dict_keys d) \<and> prefix CRYPTO_PREFIX k)) d)"
    by (rule del_crypto_keys_run) (simp_all add: dict_keys_def)
  also have "filter (\<lambda>(k, v). \<not> (k \<in> set (dict_keys d) \<and> prefix CRYPTO_PREFIX k)) d
               = filter (\<lambda>(k, v). \<not> prefix CRYPTO_PREFIX k) d"
    by (rule filter_cong) (force simp: dict_keys_def)+
  finally show ?thesis .
qed


lemma sess_delitem_present:
  "k \<in> fst ` set (sess_data s) \<Longrightarrow>
     sess_delitem s k = Inr (s\<lparr>sess_data := filter (\<lambda>(k', v). k' \<noteq> k) (sess_data s),
                               sess_log := sess_log s @ [DelItem k]\<rparr>)"
  by (simp add: sess_delitem_def dict_delitem_present)

lemma sess_del_crypto_keys_run:
  assumes "distinct ks" and "set ks \<subseteq> fst ` set (sess_data s)"
  shows "sess_del_crypto_keys ks s =
           (Inr (), s\<lparr>sess_data :=
                         filter (\<lambda>(k, v). \<not> (k \<in> set ks \<and> prefix CRYPTO_PREFIX k)) (sess_data s),
                       sess_log := sess_log s @ map DelItem (filter (prefix CRYPTO_PREFIX) ks)\<rparr>)"
  using assms
proof (induction ks arbitrary: s)
  case Nil
  then show ?case by simp
next
  case (Cons key ks)
  show ?case
  proof (cases "prefix CRYPTO_PREFIX key")
    case True
    let ?s' = "s\<lparr>sess_data := filter (\<lambda>(k', v). k' \<noteq> key) (sess_data s),
                  sess_log := sess_log s @ [DelItem key]\<rparr>"
    have del: "sess_delitem s key = Inr ?s'"
      using Cons.prems(2) by (simp add: sess_delitem_present)
    have sub: "set ks \<subseteq> fst ` set (sess_data ?s')"
      using Cons.prems by force
    have d: "distinct ks" using Cons.prems(1) by simp
    have flt: "filter (\<lambda>(k, v). \<not> (k \<in> set ks \<and> prefix CRYPTO_PREFIX k))
                 (filter (\<lambda>(k', v). k' \<noteq> key) (sess_data s))
               = filter (\<lambda>(k, v). \<not> (k \<in> set (key # ks) \<and> prefix CRYPTO_PREFIX k)) (sess_data s)"
      using True by (auto simp: case_prod_unfold intro!: filter_cong)
    show ?thesis
      using True del Cons.IH [OF d sub] flt by simp
  next
    case False
    have sub: "set ks \<subseteq> fst ` set (sess_data s)" using Cons.prems(2) by simp
    have d: "distinct ks" using Cons.prems(1) by simp
    have flt: "filter (\<lambda>(k, v). \<not> (k \<in> set ks \<and> prefix CRYPTO_PREFIX k)) (sess_data s)
               = filter (\<lambda>(k, v). \<not> (k \<in> set (key # ks) \<and> prefix CRYPTO_PREFIX k)) (sess_data s)"
      using False by (auto simp: case_prod_unfold intro!: filter_cong)
    show ?thesis
      using False Cons.IH [OF d sub] flt by simp
  qed
qed


lemma sess_del_crypto_keys_all:
  "sess_del_crypto_keys (dict_keys (sess_data s)) s =
     (Inr (), s\<lparr>sess_data := filter (\<lambda>(k, v). \<not> prefix CRYPTO_PREFIX k) (sess_data s),
                 sess_log := sess_log s
                   @ map DelItem (filter (prefix CRYPTO_PREFIX) (dict_keys (sess_data s)))\<rparr>)"
proof -
  have "filter (\<lambda>(k, v). \<not> (k \<in> set (dict_keys (sess_data s)) \<and> prefix CRYPTO_PREFIX k)) (sess_data s)
               = filter (\<lambda>(k, v). \<not> prefix CRYPTO_PREFIX k) (sess_data s)"
    by (rule filter_cong) (force simp: dict_keys_def)+
  moreover have "distinct (dict_keys (sess_data s))"
    and "set (dict_keys (sess_data s)) \<subseteq> fst ` set (sess_data s)"
    by (simp_all add: dict_keys_def)
  ultimately show ?thesis
    using sess_del_crypto_keys_run [of "dict_keys (sess_data s)" s] by simp
qed

lemma map_of_filter_key:
  "map_of (filter (\<lambda>(k, v). P k) d) k = (if P k then map_of d k else None)"
  by (induction d) auto

lemma clear_crypto_blocks_run:
  "clear_crypto_blocks st =
     (Inr (),
      st\<lparr>session_store := filter (\<lambda>(k, v). \<not> prefix CRYPTO_PREFIX k) (session_store st),
         session :=
           (case session st of
              None \<Rightarrow> None
            | Some s \<Rightarrow>
                Some (case sess_flush s of
                        Some f \<Rightarrow> sess_flush_crypto_blocks f s
                      | None \<Rightarrow>
                          s\<lparr>sess_data :=
                              filter (\<lambda>(k, v). \<not> prefix CRYPTO_PREFIX k) (sess_data s),
                            sess_log := sess_log s
                              @ map DelItem
                                  (filter (prefix CRYPTO_PREFIX) (dict_keys (sess_data s)))\<rparr>))\<rparr>)"
  by (simp add: clear_crypto_blocks_def del_crypto_keys_all sess_del_crypto_keys_all Let_def
      split: option.splits)

text \<open>
  C8. \<^verbatim>\<open>_clear_crypto_blocks\<close> always completes. Afterwards the local store is the old one
  without the entries whose key starts with the crypto prefix: no such key is left, and
  every other entry (cached usernames, running users) is as it was. A session that exposes
  \<^verbatim>\<open>flush_crypto_blocks\<close> gets exactly that one call; a session without it has its keys
  enumerated and each key with the prefix deleted, one by one.
\<close>

theorem clear_crypto_blocks_effect:
  "\<exists>st'. clear_crypto_blocks st = (Inr (), st')
     \<and> session_store st' = filter (\<lambda>(k, v). \<not> prefix CRYPTO_PREFIX k) (session_store st)
     \<and> (\<forall>k. map_of (session_store st') k
              = (if prefix CRYPTO_PREFIX k then None else map_of (session_store st) k))
     \<and> (session st = None \<longrightarrow> session st' = None)
     \<and> (\<forall>s f. session st = Some s \<and> sess_flush s = Some f \<longrightarrow>
           session st' = Some (sess_flush_crypto_blocks f s))
     \<and> (\<forall>s. session st = Some s \<and> sess_flush s = None \<longrightarrow>
           session st' =
             Some (s\<lparr>sess_data := filter (\<lambda>(k, v). \<not> prefix CRYPTO_PREFIX k) (sess_data s),
                     sess_log := sess_log s
                       @ map DelItem (filter (prefix CRYPTO_PREFIX) (dict_keys (sess_data s)))\<rparr>))"
  by (auto simp: clear_crypto_blocks_run map_of_filter_key)


theorem clear_crypto_blocks_effect_witness:
  "session (ex_cached_instance None) = None
   \<and> (\<exists>st'. clear_crypto_blocks (ex_cached_instance None) = (Inr (), st')
         \<and> session_store st' = [(''RUNNING_USER_bob'', PyObj ''running user'')]
         \<and> session st' = None)
   \<and> session (ex_cached_instance (Some ex_flush_session)) = Some ex_flush_session
   \<and> sess_flush ex_flush_session = Some ex_flush
   \<and> (\<exists>st'. clear_crypto_blocks (ex_cached_instance (Some ex_flush_session)) = (Inr (), st')
         \<and> session st' = Some (sess_flush_crypto_blocks ex_flush ex_flush_session))
   \<and> session (ex_cached_instance (Some ex_crypto_session)) = Some ex_crypto_session
   \<and> sess_flush ex_crypto_session = None
   \<and> (\<exists>st' s'. clear_crypto_blocks (ex_cached_instance (Some ex_crypto_session)) = (Inr (), st')
         \<and> session st' = Some s'
         \<and> sess_data s' = [(''USERNAME_10.0.0.1_example.com'', PyStr ''bob'')]
         \<and> sess_log s' = [DelItem ''CRYPTO_BLOCK_bob_reserve''])"
  using clear_crypto_blocks_effect [of "ex_cached_instance None"]
        clear_crypto_blocks_effect [of "ex_cached_instance (Some ex_flush_session)"]
        clear_crypto_blocks_effect [of "ex_cached_instance (Some ex_crypto_session)"]
  by (auto simp: ex_cached_instance_def ex_flush_session_def ex_crypto_session_def
      CRYPTO_PREFIX_def dict_keys_def)

section \<open>Session bootstrap: what a successful call leaves behind\<close>

lemma dict_getitem_setitem:
  "dict_getitem (dict_setitem d k v) k' = (if k' = k then Inr v else dict_getitem d k')"
  by (simp add: dict_getitem_def map_of_dict_setitem)

lemma not_crypto_username_key [simp]:
  "\<not> prefix CRYPTO_PREFIX (get_username_session_key ip site)"
  by (simp add: CRYPTO_PREFIX_def get_username_session_key_def USERNAME_PREFIX_def)

lemma not_crypto_running_user_key [simp]:
  "\<not> prefix CRYPTO_PREFIX (get_running_user_session_key u)"
  by (simp add: CRYPTO_PREFIX_def get_running_user_session_key_def RUNNING_USER_PREFIX_def)

lemma crypto_session_key_prefix [simp]:
  "prefix CRYPTO_PREFIX (get_crypto_session_key u m)"
  by (simp add: get_crypto_session_key_def)

lemma crypto_session_key_inj [simp]:
  "get_crypto_session_key u m = get_crypto_session_key u m' \<longleftrightarrow> m = m'"
  by (simp add: get_crypto_session_key_def)

lemma username_key_neq [simp]:
  "get_running_user_session_key u \<noteq> get_username_session_key ip site"
  "get_crypto_session_key u m \<noteq> get_username_session_key ip site"
  "get_username_session_key ip site \<noteq> get_running_user_session_key u"
  "get_username_session_key ip site \<noteq> get_crypto_session_key u m"
  by (simp_all add: CRYPTO_PREFIX_def get_username_session_key_def USERNAME_PREFIX_def
      get_running_user_session_key_def RUNNING_USER_PREFIX_def get_crypto_session_key_def)

lemma adopt_username_run:
  assumes "dict_getitem (settings st) ''remote_ip'' = Inr ip"
    and "dict_getitem (settings st) ''remote_site'' = Inr site"
  shows "adopt_username u ru st =
     (Inr (), store_data (get_running_user_session_key u) ru True
                (store_data (get_username_session_key ip site) u True
                   (st\<lparr>settings := dict_setitem (settings st) ''username'' u\<rparr>)))"
  using assms
  by (simp add: adopt_username_def set_cached_username_def set_cached_running_user_def Let_def)

lemma adopt_username_Inr:
  assumes "adopt_username u ru st = (Inr x, st')"
  shows "\<exists>ip site. dict_getitem (settings st) ''remote_ip'' = Inr ip
     \<and> dict_getitem (settings st) ''remote_site'' = Inr site
     \<and> st' = store_data (get_running_user_session_key u) ru True
                (store_data (get_username_session_key ip site) u True
                   (st\<lparr>settings := dict_setitem (settings st) ''username'' u\<rparr>))"
  using assms
  by (auto simp: adopt_username_def set_cached_username_def set_cached_running_user_def Let_def
      split: sum.splits)

text \<open>The state after a bootstrap that succeeded, in full.\<close>

lemma start_session_Inr:
  assumes "start_session rem st = (Inr blk, st')"
  shows "\<exists>api api1 cur st1 st2.
       core_api st = Some api \<and> rem api = (Inr blk, api1)
     \<and> dict_getitem (settings st) ''username'' = Inr cur
     \<and> st1 = st\<lparr>core_api := Some api1, remote_calls := Suc (remote_calls st)\<rparr>
     \<and> (if \<not> truthy cur \<or> api_username api1 \<noteq> cur
         then adopt_username (api_username api1) (api_running_user api1) st1 = (Inr (), st2)
         else st2 = st1)
     \<and> st' = (if truthy blk
              then store_data (get_crypto_session_key (api_username api1) ''start_session'')
                     blk True st2
              else st2)"
  using assms
  apply (simp add: start_session_def Let_def split: option.splits prod.splits sum.splits if_splits)
  apply (auto simp: set_crypto_block_def store_data_settings dict_getitem_setitem
      split: sum.splits dest!: adopt_username_Inr)
  done


lemma retrieve_data_frame [simp]:
  "retrieve_data k (st\<lparr>settings := x\<rparr>) = retrieve_data k st"
  "retrieve_data k (st\<lparr>core_api := y\<rparr>) = retrieve_data k st"
  "retrieve_data k (st\<lparr>remote_calls := z\<rparr>) = retrieve_data k st"
  by (simp_all add: retrieve_data_def)

lemma start_session_resolves:
  assumes "start_session rem st = (Inr blk, st')"
  shows "\<exists>api api1. core_api st = Some api \<and> rem api = (Inr blk, api1)
           \<and> dict_getitem (settings st') ''username'' = Inr (api_username api1)
           \<and> remote_calls st' = Suc (remote_calls st)"
proof -
  from start_session_Inr [OF assms] obtain api api1 cur st1 st2 where
    a: "core_api st = Some api" "rem api = (Inr blk, api1)"
       "dict_getitem (settings st) ''username'' = Inr cur"
    and st1: "st1 = st\<lparr>core_api := Some api1, remote_calls := Suc (remote_calls st)\<rparr>"
    and st2: "if \<not> truthy cur \<or> api_username api1 \<noteq> cur
         then adopt_username (api_username api1) (api_running_user api1) st1 = (Inr (), st2)
         else st2 = st1"
    and st': "st' = (if truthy blk
              then store_data (get_crypto_session_key (api_username api1) ''start_session'')
                     blk True st2
              else st2)"
    by blast
  have "dict_getitem (settings st2) ''username'' = Inr (api_username api1)
          \<and> remote_calls st2 = Suc (remote_calls st)"
  proof (cases "\<not> truthy cur \<or> api_username api1 \<noteq> cur")
    case True
    with st2 have "adopt_username (api_username api1) (api_running_user api1) st1 = (Inr (), st2)"
      by simp
    from adopt_username_Inr [OF this] show ?thesis
      by (auto simp: st1 store_data_settings store_data_remote_calls dict_getitem_setitem)
  next
    case False
    with st2 a(3) show ?thesis by (simp add: st1)
  qed
  then show ?thesis using a st'
    by (auto simp: store_data_settings store_data_remote_calls)
qed

lemma start_session_crypto_keys:
  assumes "start_session rem st = (Inr blk, st')"
    and "dict_getitem (settings st') ''username'' = Inr u"
    and "prefix CRYPTO_PREFIX k"
  shows "retrieve_data k st' =
           (if truthy blk \<and> k = get_crypto_session_key u ''start_session'' then blk
            else retrieve_data k st)"
proof -
  from start_session_Inr [OF assms(1)] obtain api api1 cur st1 st2 where
    a: "core_api st = Some api" "rem api = (Inr blk, api1)"
       "dict_getitem (settings st) ''username'' = Inr cur"
    and st1: "st1 = st\<lparr>core_api := Some api1, remote_calls := Suc (remote_calls st)\<rparr>"
    and st2: "if \<not> truthy cur \<or> api_username api1 \<noteq> cur
         then adopt_username (api_username api1) (api_running_user api1) st1 = (Inr (), st2)
         else st2 = st1"
    and st': "st' = (if truthy blk
              then store_data (get_crypto_session_key (api_username api1) ''start_session'')
                     blk True st2
              else st2)"
    by blast
  from start_session_resolves [OF assms(1)] a(1,2) assms(2)
  have u: "u = api_username api1" by auto
  have "retrieve_data k st2 = retrieve_data k st"
  proof (cases "\<not> truthy cur \<or> api_username api1 \<noteq> cur")
    case True
    with st2 have "adopt_username (api_username api1) (api_running_user api1) st1 = (Inr (), st2)"
      by simp
    from adopt_username_Inr [OF this] show ?thesis
      using assms(3) by (auto simp: st1 retrieve_data_store_data)
  next
    case False
    with st2 show ?thesis by (simp add: st1)
  qed
  then show ?thesis using st' u
    by (simp add: retrieve_data_store_data)
qed

lemma session_store_data_get:
  assumes "session st = Some s"
  shows "\<exists>s'. session (store_data k v b st) = Some s'
           \<and> (\<forall>k'. sess_get s' k' = (if k' = k then v else sess_get s k'))"
  using assms by (simp add: store_data_session sess_get_setitem sess_get_save)

lemma start_session_caches_username:
  assumes "start_session rem st = (Inr blk, st')"
    and "dict_getitem (settings st) ''username'' = Inr cur" and "\<not> truthy cur"
    and "dict_getitem (settings st) ''remote_ip'' = Inr ip"
    and "dict_getitem (settings st) ''remote_site'' = Inr site"
    and "dict_getitem (settings st') ''username'' = Inr u"
    and "session st = Some s"
  shows "\<exists>s'. session st' = Some s' \<and> sess_get s' (get_username_session_key ip site) = u"
proof -
  from start_session_Inr [OF assms(1)] assms(2,3) obtain api api1 st1 st2 where
    a: "core_api st = Some api" "rem api = (Inr blk, api1)"
    and st1: "st1 = st\<lparr>core_api := Some api1, remote_calls := Suc (remote_calls st)\<rparr>"
    and st2: "adopt_username (api_username api1) (api_running_user api1) st1 = (Inr (), st2)"
    and st': "st' = (if truthy blk
              then store_data (get_crypto_session_key (api_username api1) ''start_session'')
                     blk True st2
              else st2)"
    by auto
  from start_session_resolves [OF assms(1)] a(1,2) assms(6)
  have u: "u = api_username api1" by auto
  let ?st0 = "st1\<lparr>settings := dict_setitem (settings st1) ''username'' u\<rparr>"
  let ?sta = "store_data (get_username_session_key ip site) u True ?st0"
  let ?stb = "store_data (get_running_user_session_key u) (api_running_user api1) True ?sta"
  have st2_eq: "st2 = ?stb"
    using adopt_username_Inr [OF st2] assms(4,5) by (auto simp: st1 u)
  have "session ?st0 = Some s" using assms(7) by (simp add: st1)
  from session_store_data_get
         [OF this, where k = "get_username_session_key ip site" and v = u and b = True]
  obtain sa where
    sa: "session ?sta = Some sa" "sess_get sa (get_username_session_key ip site) = u"
    by auto
  from session_store_data_get
         [OF sa(1), where k = "get_running_user_session_key u"
            and v = "api_running_user api1" and b = True] sa(2)
  obtain sb where
    sb: "session ?stb = Some sb" "sess_get sb (get_username_session_key ip site) = u"
    by auto
  show ?thesis
  proof (cases "truthy blk")
    case True
    from session_store_data_get
           [OF sb(1), where k = "get_crypto_session_key u ''start_session''"
              and v = blk and b = True] sb(2)
    obtain sc where
      "session (store_data (get_crypto_session_key u ''start_session'') blk True ?stb) = Some sc"
      "sess_get sc (get_username_session_key ip site) = u"
      by auto
    then show ?thesis using True st' st2_eq u by auto
  next
    case False
    then show ?thesis using st' st2_eq sb by auto
  qed
qed

lemma identity_changed_fresh [simp]:
  "\<not> identity_changed (get_settings no_args) k v"
  by (simp add: identity_changed_def get_settings_def no_args_def split: option.splits)

lemma apply_defaults_identity [simp]:
  "a_username (apply_defaults ds a) = a_username a"
  "a_remote_ip (apply_defaults ds a) = a_remote_ip a"
  "a_remote_site (apply_defaults ds a) = a_remote_site a"
  "a_password (apply_defaults ds a) = a_password a"
  by (simp_all add: apply_defaults_def)

lemma get_settings_identity [simp]:
  "dict_getitem (get_settings a) ''username'' = Inr (a_username a)"
  "dict_getitem (get_settings a) ''remote_ip'' = Inr (a_remote_ip a)"
  "dict_getitem (get_settings a) ''remote_site'' = Inr (a_remote_site a)"
  "dict_getitem (get_settings a) ''password'' = Inr (a_password a)"
  by (simp_all add: get_settings_def dict_getitem_def)

text \<open>Construction with a session and configuration arguments only.\<close>

lemma init_with_session:
  "init ds \<lparr>k_session = so, k_core_api = None, k_settings = None, k_session_store = None,
            k_conf = Some a\<rparr> = (Inr (), st)
   \<Longrightarrow> session st = so \<and> session_store st = [] \<and> remote_calls st = 0
     \<and> (\<exists>a1. settings st = get_settings a1 \<and> a_remote_ip a1 = a_remote_ip a
            \<and> a_remote_site a1 = a_remote_site a
            \<and> a_username a1 =
                 (if \<not> truthy (a_username a) \<and> truthy (a_remote_ip a) \<and> truthy (a_remote_site a)
                  then (case so of None \<Rightarrow> PyNone
                        | Some s \<Rightarrow> sess_get s (get_username_session_key (a_remote_ip a) (a_remote_site a)))
                  else a_username a))"
  by (auto simp: init_def configure_def Let_def configured_username_def get_cached_username_def
      retrieve_data_def dict_get_def split: option.splits)

lemma init_with_session_total:
  "\<exists>st. init ds \<lparr>k_session = so, k_core_api = None, k_settings = None, k_session_store = None,
            k_conf = Some a\<rparr> = (Inr (), st)"
  by (simp add: init_def configure_def Let_def)

lemmas eval_defs = init_def configure_def configured_username_def apply_defaults_def
  get_settings_def no_args_def CoreAPI_def identity_changed_def get_cached_username_def
  retrieve_data_def dict_get_def dict_getitem_def sess_get_def get_username_session_key_def
  USERNAME_PREFIX_def ex_site_args_def ex_empty_session_def ex_defaults_def ex_first_kwargs_def
  get_username_def start_session_def adopt_username_def set_cached_username_def
  set_cached_running_user_def set_crypto_block_def store_data_def dict_setitem_def
  sess_setitem_def sess_save_def get_running_user_session_key_def RUNNING_USER_PREFIX_def
  get_crypto_session_key_def CRYPTO_PREFIX_def ex_remote_guest_def Let_def

section \<open>A cached username is shared\<close>

text \<open>
  The case in which the cached username is shared. Two instances are constructed over one
  session store with the same truthy remote IP and remote site and no username. If
  \<^verbatim>\<open>get_username\<close> of the first returns a non-empty username (after a bootstrap, which
  caches it under the key of the pair), then a second instance that is constructed over the
  session as the first one left it has that username in its settings: \<^verbatim>\<open>_configure\<close> reads
  it from the cache, \<^verbatim>\<open>get_username\<close> returns it and leaves the instance as it is, so it
  issues no remote call, whatever the remote client would do.
\<close>

lemma cached_username_is_shared:
  assumes ip: "truthy (a_remote_ip a)" and site: "truthy (a_remote_site a)"
    and anon: "\<not> truthy (a_username a)"
    and b: "\<not> truthy (a_username b)" "a_remote_ip b = a_remote_ip a"
           "a_remote_site b = a_remote_site a"
    and first: "init ds \<lparr>k_session = Some s, k_core_api = None, k_settings = None,
                         k_session_store = None, k_conf = Some a\<rparr> = (Inr (), first0)"
    and boot: "get_username rem first0 = (Inr u, first1)" and u: "truthy u"
  shows "\<exists>s1 second0. session first1 = Some s1
     \<and> init ds \<lparr>k_session = Some s1, k_core_api = None, k_settings = None,
                 k_session_store = None, k_conf = Some b\<rparr> = (Inr (), second0)
     \<and> get_username rem2 second0 = (Inr u, second0)
     \<and> remote_calls second0 = 0"
proof -
  let ?key = "get_username_session_key (a_remote_ip a) (a_remote_site a)"
  from init_with_session [OF first] ip site anon obtain a1 where
    f0: "session first0 = Some s" "session_store first0 = []"
        "settings first0 = get_settings a1" "a_remote_ip a1 = a_remote_ip a"
        "a_remote_site a1 = a_remote_site a" "a_username a1 = sess_get s ?key"
    by auto
  have "\<exists>s1. session first1 = Some s1 \<and> sess_get s1 ?key = u"
  proof (cases "truthy (sess_get s ?key)")
    case True
    with boot f0 have "first1 = first0" "u = sess_get s ?key"
      by (auto simp: get_username_def)
    then show ?thesis using f0 by simp
  next
    case False
    have cached: "get_cached_username (a_remote_ip a) (a_remote_site a) first0 = sess_get s ?key"
      using f0 by (simp add: get_cached_username_def retrieve_data_def dict_get_def)
    from boot f0 False cached obtain blk where
      ss: "start_session rem first0 = (Inr blk, first1)"
      and u': "dict_getitem (settings first1) ''username'' = Inr u"
      by (auto simp: get_username_def split: prod.splits sum.splits)
    have cur: "dict_getitem (settings first0) ''username'' = Inr (sess_get s ?key)"
      and rip: "dict_getitem (settings first0) ''remote_ip'' = Inr (a_remote_ip a)"
      and rst: "dict_getitem (settings first0) ''remote_site'' = Inr (a_remote_site a)"
      using f0 by simp_all
    from start_session_caches_username [OF ss cur False rip rst u' f0(1)]
    show ?thesis .
  qed
  then obtain s1 where s1: "session first1 = Some s1" "sess_get s1 ?key = u" by blast
  from init_with_session_total obtain second0 where
    second: "init ds \<lparr>k_session = Some s1, k_core_api = None, k_settings = None,
                 k_session_store = None, k_conf = Some b\<rparr> = (Inr (), second0)"
    by blast
  from init_with_session [OF second] ip site b s1 obtain b1 where
    s0: "remote_calls second0 = 0" "settings second0 = get_settings b1" "a_username b1 = u"
    by auto
  have "get_username rem2 second0 = (Inr u, second0)"
    using s0 u by (simp add: get_username_def)
  with s1 second s0 show ?thesis by blast
qed

lemma cached_username_is_shared_example:
  "truthy (a_remote_ip ex_site_args) \<and> truthy (a_remote_site ex_site_args)
   \<and> \<not> truthy (a_username ex_site_args)
   \<and> (\<exists>first0 first1.
         init ex_defaults ex_first_kwargs = (Inr (), first0)
       \<and> get_username ex_remote_guest first0 = (Inr (PyStr ''guest1''), first1)
       \<and> remote_calls first1 = 1
       \<and> (\<exists>s1 second0. session first1 = Some s1
             \<and> init ex_defaults \<lparr>k_session = Some s1, k_core_api = None, k_settings = None,
                   k_session_store = None, k_conf = Some ex_site_args\<rparr> = (Inr (), second0)
             \<and> get_username ex_remote_fail second0 = (Inr (PyStr ''guest1''), second0)
             \<and> remote_calls second0 = 0))"
proof -
  let ?first0 = "snd (init ex_defaults ex_first_kwargs)"
  let ?first1 = "snd (get_username ex_remote_guest ?first0)"
  have ip: "truthy (a_remote_ip ex_site_args)" and site: "truthy (a_remote_site ex_site_args)"
    and anon: "\<not> truthy (a_username ex_site_args)"
    by (simp_all add: ex_site_args_def no_args_def)
  have i: "init ex_defaults \<lparr>k_session = Some ex_empty_session, k_core_api = None,
             k_settings = None, k_session_store = None, k_conf = Some ex_site_args\<rparr>
           = (Inr (), ?first0)"
    using init_with_session_total [of ex_defaults "Some ex_empty_session" ex_site_args]
    by (auto simp: ex_first_kwargs_def)
  then have i': "init ex_defaults ex_first_kwargs = (Inr (), ?first0)"
    by (simp add: ex_first_kwargs_def)
  have "fst (get_username ex_remote_guest ?first0) = Inr (PyStr ''guest1'')"
    by (simp add: eval_defs)
  then have g: "get_username ex_remote_guest ?first0 = (Inr (PyStr ''guest1''), ?first1)"
    by (simp add: prod_eq_iff)
  have c: "remote_calls ?first1 = 1"
    by (simp add: eval_defs)
  have t: "truthy (PyStr ''guest1'')" by simp
  from cached_username_is_shared [OF ip site anon anon refl refl i g t, of ex_remote_fail]
  obtain s1 second0 where r: "session ?first1 = Some s1"
      "init ex_defaults \<lparr>k_session = Some s1, k_core_api = None, k_settings = None,
                   k_session_store = None, k_conf = Some ex_site_args\<rparr> = (Inr (), second0)"
      "get_username ex_remote_fail second0 = (Inr (PyStr ''guest1''), second0)"
      "remote_calls second0 = 0"
    by blast
  show ?thesis
    using ip site anon i' g c r by blast
qed

section \<open>The password gate and the number of bootstraps\<close>

lemmas eval_more = eval_defs ex_anon_instance_def ex_session_def ex_remote_noblock_def
  get_crypto_block_def get_crypto_block_for_object_def password_is_set_def
  get_crypto_object_key_def basket1_def basket2_def

text \<open>
  With a password in the settings, \<^verbatim>\<open>get_crypto_block(method_name, password_required=False)\<close>
  returns None and leaves the instance untouched: no remote call, no look at the stores.
\<close>

lemma get_crypto_block_password_gate:
  "password_is_set st \<Longrightarrow> get_crypto_block rem method_name False st = (Inr PyNone, st)"
  by (simp add: get_crypto_block_def)

text \<open>
  Without a username in the settings the call bootstraps; it does so once when the method
  is not start_session, or when the remote client returns a crypto block with the session.
\<close>

lemma get_crypto_block_bootstraps_once:
  assumes gate: "pr \<or> \<not> password_is_set st"
    and unresolved: "\<not> truthy (dict_get (settings st) ''username'' (PyBool False))"
    and run: "get_crypto_block rem m pr st = (Inr v, st')"
    and block: "m \<noteq> ''start_session'' \<or> (\<forall>api c api1. rem api = (Inr c, api1) \<longrightarrow> truthy c)"
  shows "remote_calls st' = Suc (remote_calls st)"
proof -
  from run gate unresolved obtain c st1 u where
    ss: "start_session rem st = (Inr c, st1)"
    and u: "dict_getitem (settings st1) ''username'' = Inr u"
    and rest: "(if \<not> truthy (retrieve_data (get_crypto_session_key u m) st1)
                   \<and> m = ''start_session''
                then (if truthy c then (Inr c, st1) else start_session rem st1)
                else (Inr (retrieve_data (get_crypto_session_key u m) st1), st1)) = (Inr v, st')"
    by (auto simp: get_crypto_block_def Let_def split: sum.splits prod.splits)
  from start_session_resolves [OF ss] obtain api api1 where
    r: "rem api = (Inr c, api1)" and n: "remote_calls st1 = Suc (remote_calls st)"
    by blast
  have "m = ''start_session'' \<longrightarrow> truthy c" using block r by blast
  with rest have "st' = st1" by (auto split: if_splits)
  with n show ?thesis by simp
qed

text \<open>
  C3. The claim: with a password configured, \<^verbatim>\<open>get_crypto_block(method_name,
  password_required=False)\<close> returns None without a remote call or a cache lookup (the
  gate above); with no password and no username resolved, it triggers the bootstrap exactly
  once. The code at the second half, for the method start_session and a remote client that
  establishes the session but returns no crypto block: the first bootstrap returns None, the
  lookup misses, the test of \<^verbatim>\<open>start_session_crypto\<close> fails, and \<^verbatim>\<open>_start_session\<close> runs a
  second time. The instance has issued two remote calls when the operation returns.
\<close>

theorem get_crypto_block_bootstraps_twice:
  "\<not> password_is_set ex_anon_instance
   \<and> \<not> truthy (dict_get (settings ex_anon_instance) ''username'' (PyBool False))
   \<and> remote_calls ex_anon_instance = 0
   \<and> fst (get_crypto_block ex_remote_noblock ''start_session'' False ex_anon_instance)
       = Inr PyNone
   \<and> remote_calls (snd (get_crypto_block ex_remote_noblock ''start_session'' False
                          ex_anon_instance)) = 2"
  by (simp add: eval_more)

section \<open>The username behind a crypto key\<close>

lemma set_crypto_loop_retrieve:
  assumes "dict_getitem (settings st) ''username'' = Inr u"
  shows "\<exists>st'. set_crypto_loop blk m n i objs st = (Inr (), st')
     \<and> (\<forall>k. retrieve_data k st' =
               (if k \<in> (\<lambda>obj. get_crypto_object_key u m obj) ` set objs then blk
                else retrieve_data k st))"
  using assms
proof (induction objs arbitrary: i st)
  case Nil
  then show ?case by simp
next
  case (Cons obj objs)
  let ?st1 = "store_data (get_crypto_object_key u m obj) blk (int i = n - 1) st"
  have u1: "dict_getitem (settings ?st1) ''username'' = Inr u"
    using Cons.prems by (simp add: store_data_settings)
  from Cons.IH [OF u1, of "Suc i"] obtain st' where
    r: "set_crypto_loop blk m n (Suc i) objs ?st1 = (Inr (), st')"
    and k: "\<forall>k. retrieve_data k st' =
               (if k \<in> (\<lambda>obj. get_crypto_object_key u m obj) ` set objs then blk
                else retrieve_data k ?st1)"
    by blast
  have "set_crypto_loop blk m n i (obj # objs) st = (Inr (), st')"
    using Cons.prems r by simp
  moreover have "\<forall>k. retrieve_data k st' =
               (if k \<in> (\<lambda>obj. get_crypto_object_key u m obj) ` set (obj # objs) then blk
                else retrieve_data k st)"
    using k by (auto simp: retrieve_data_store_data)
  ultimately show ?case by blast
qed

lemma bootstrap_if_unresolved:
  assumes remote_ok: "\<forall>api blk api1. rem api = (Inr blk, api1) \<longrightarrow> truthy (api_username api1)"
    and run: "(if \<not> truthy (dict_get (settings st) ''username'' (PyBool False))
               then start_session rem st else (Inr PyNone, st)) = (Inr c, st1)"
  shows "\<exists>u. dict_getitem (settings st1) ''username'' = Inr u \<and> truthy u"
proof (cases "truthy (dict_get (settings st) ''username'' (PyBool False))")
  case True
  with run have "st1 = st" by simp
  with True show ?thesis using resolved_getitem by blast
next
  case False
  with run have "start_session rem st = (Inr c, st1)" by simp
  from start_session_resolves [OF this] remote_ok show ?thesis by blast
qed

text \<open>
  \<^verbatim>\<open>_set_crypto_block\<close> on an instance whose settings hold no username: it completes, the
  block is stored under the key made from the text of None, and the settings still hold
  no username.
\<close>

theorem store_under_unresolved_username_counterexample:
  "\<not> truthy (dict_get (settings ex_anon_instance) ''username'' (PyBool False))
   \<and> retrieve_data ''CRYPTO_BLOCK_None_reserve'' ex_anon_instance = PyNone
   \<and> fst (set_crypto_block (PyStr ''blk'') ''reserve'' ex_anon_instance) = Inr ()
   \<and> retrieve_data ''CRYPTO_BLOCK_None_reserve''
        (snd (set_crypto_block (PyStr ''blk'') ''reserve'' ex_anon_instance)) = PyStr ''blk''
   \<and> dict_get (settings (snd (set_crypto_block (PyStr ''blk'') ''reserve'' ex_anon_instance)))
        ''username'' (PyBool False) = PyNone"
  by (simp add: eval_more)

text \<open>
  C2, amended. The two retrieving operations resolve a username before they derive the
  key: whenever \<^verbatim>\<open>_get_crypto_block_for_object\<close> returns, and whenever \<^verbatim>\<open>get_crypto_block\<close>
  returns after passing the password gate, the settings hold a non-empty username, and
  the value returned (for \<^verbatim>\<open>get_crypto_block\<close>: for a method other than start_session) is
  the one cached under the key of that username; this supposes that the remote client
  reports a non-empty username whenever it establishes a session. The three storing
  operations resolve nothing: they take the username as the settings hold it, so they
  derive the key from a resolved username when the instance holds one at the call.
\<close>

theorem key_derived_from_resolved_username:
  assumes remote_ok: "\<forall>api blk api1. rem api = (Inr blk, api1) \<longrightarrow> truthy (api_username api1)"
  shows "(get_crypto_block_for_object rem method_name obj st = (Inr v, st1) \<longrightarrow>
            (\<exists>u. dict_getitem (settings st1) ''username'' = Inr u \<and> truthy u
               \<and> v = retrieve_data (get_crypto_object_key u method_name obj) st1))
     \<and> ((password_required \<or> \<not> password_is_set st)
          \<and> get_crypto_block rem method_name password_required st = (Inr w, st2) \<longrightarrow>
            (\<exists>u. dict_getitem (settings st2) ''username'' = Inr u \<and> truthy u
               \<and> (method_name \<noteq> ''start_session'' \<longrightarrow>
                    w = retrieve_data (get_crypto_session_key u method_name) st2)))
     \<and> (truthy (dict_get (settings st) ''username'' (PyBool False)) \<longrightarrow>
            (\<exists>u. dict_getitem (settings st) ''username'' = Inr u \<and> truthy u
               \<and> set_crypto_block crypto_block method_name st
                   = (Inr (), store_data (get_crypto_session_key u method_name)
                                crypto_block True st)
               \<and> set_crypto_for_object crypto_block method_name obj st
                   = (Inr (), store_data (get_crypto_object_key u method_name obj)
                                crypto_block True st)
               \<and> (\<exists>st3. set_crypto_for_objects crypto_block method_name objs st = (Inr (), st3)
                     \<and> (\<forall>obj' \<in> set objs.
                           retrieve_data (get_crypto_object_key u method_name obj') st3
                             = crypto_block))))"
proof (intro conjI impI)
  assume run: "get_crypto_block_for_object rem method_name obj st = (Inr v, st1)"
  then obtain c where
    first: "(if \<not> truthy (dict_get (settings st) ''username'' (PyBool False))
               then start_session rem st else (Inr PyNone, st)) = (Inr c, st1)"
    by (auto simp: get_crypto_block_for_object_def split: prod.splits sum.splits)
  from bootstrap_if_unresolved [OF remote_ok first] obtain u where
    u: "dict_getitem (settings st1) ''username'' = Inr u" "truthy u" by blast
  with run first show "\<exists>u. dict_getitem (settings st1) ''username'' = Inr u \<and> truthy u
               \<and> v = retrieve_data (get_crypto_object_key u method_name obj) st1"
    by (auto simp: get_crypto_block_for_object_def split: prod.splits sum.splits)
next
  assume a: "(password_required \<or> \<not> password_is_set st)
          \<and> get_crypto_block rem method_name password_required st = (Inr w, st2)"
  then obtain c sta ua where
    first: "(if \<not> truthy (dict_get (settings st) ''username'' (PyBool False))
               then start_session rem st else (Inr PyNone, st)) = (Inr c, sta)"
    and ua: "dict_getitem (settings sta) ''username'' = Inr ua"
    and rest: "(if \<not> truthy (retrieve_data (get_crypto_session_key ua method_name) sta)
                   \<and> method_name = ''start_session''
                then (if truthy c then (Inr c, sta) else start_session rem sta)
                else (Inr (retrieve_data (get_crypto_session_key ua method_name) sta), sta))
               = (Inr w, st2)"
    by (auto simp: get_crypto_block_def Let_def split: sum.splits prod.splits)
  from bootstrap_if_unresolved [OF remote_ok first] ua have tua: "truthy ua" by auto
  show "\<exists>u. dict_getitem (settings st2) ''username'' = Inr u \<and> truthy u
               \<and> (method_name \<noteq> ''start_session'' \<longrightarrow>
                    w = retrieve_data (get_crypto_session_key u method_name) st2)"
  proof (cases "\<not> truthy (retrieve_data (get_crypto_session_key ua method_name) sta)
                   \<and> method_name = ''start_session'' \<and> \<not> truthy c")
    case True
    with rest have "start_session rem sta = (Inr w, st2)" by (auto split: if_splits)
    from start_session_resolves [OF this] remote_ok True show ?thesis by blast
  next
    case False
    with rest have "st2 = sta"
      and "method_name \<noteq> ''start_session'' \<longrightarrow>
             w = retrieve_data (get_crypto_session_key ua method_name) sta"
      by (auto split: if_splits)
    with ua tua show ?thesis by auto
  qed
next
  assume r: "truthy (dict_get (settings st) ''username'' (PyBool False))"
  then obtain u where u: "dict_getitem (settings st) ''username'' = Inr u" "truthy u"
    using resolved_getitem by blast
  from set_crypto_loop_retrieve [OF u(1), of crypto_block method_name
      "int (length objs)" 0 objs]
  have "\<exists>st3. set_crypto_for_objects crypto_block method_name objs st = (Inr (), st3)
                     \<and> (\<forall>obj' \<in> set objs.
                           retrieve_data (get_crypto_object_key u method_name obj') st3
                             = crypto_block)"
    by (auto simp: set_crypto_for_objects_def)
  with u show "\<exists>u. dict_getitem (settings st) ''username'' = Inr u \<and> truthy u
               \<and> set_crypto_block crypto_block method_name st
                   = (Inr (), store_data (get_crypto_session_key u method_name)
                                crypto_block True st)
               \<and> set_crypto_for_object crypto_block method_name obj st
                   = (Inr (), store_data (get_crypto_object_key u method_name obj)
                                crypto_block True st)
               \<and> (\<exists>st3. set_crypto_for_objects crypto_block method_name objs st = (Inr (), st3)
                     \<and> (\<forall>obj' \<in> set objs.
                           retrieve_data (get_crypto_object_key u method_name obj') st3
                             = crypto_block))"
    by (auto simp: set_crypto_block_def set_crypto_for_object_def)
qed

theorem key_derived_from_resolved_username_witness:
  "truthy (api_username (snd (ex_remote_guest (CoreAPI no_args))))
   \<and> get_crypto_block_for_object ex_remote_guest ''reserve'' basket1 ex_anon_instance
       = (Inr PyNone,
          snd (get_crypto_block_for_object ex_remote_guest ''reserve'' basket1 ex_anon_instance))
   \<and> (\<exists>u. dict_getitem
              (settings (snd (get_crypto_block_for_object ex_remote_guest ''reserve'' basket1
                                ex_anon_instance))) ''username'' = Inr u
         \<and> truthy u)
   \<and> \<not> password_is_set ex_anon_instance
   \<and> get_crypto_block ex_remote_guest ''reserve'' False ex_anon_instance
       = (Inr PyNone, snd (get_crypto_block ex_remote_guest ''reserve'' False ex_anon_instance))
   \<and> (\<exists>u. dict_getitem
              (settings (snd (get_crypto_block ex_remote_guest ''reserve'' False
                                ex_anon_instance))) ''username'' = Inr u
         \<and> truthy u)
   \<and> truthy (dict_get (settings ex_user_instance) ''username'' (PyBool False))
   \<and> (\<exists>u. dict_getitem (settings ex_user_instance) ''username'' = Inr u \<and> truthy u
         \<and> set_crypto_block (PyStr ''blk'') ''reserve'' ex_user_instance
             = (Inr (), store_data (get_crypto_session_key u ''reserve'') (PyStr ''blk'') True
                          ex_user_instance)
         \<and> (\<exists>st3. set_crypto_for_objects (PyStr ''blk'') ''reserve'' [basket1, basket2]
                      ex_user_instance = (Inr (), st3)
               \<and> retrieve_data (get_crypto_object_key u ''reserve'' basket2) st3
                   = PyStr ''blk''))"
proof -
  let ?S1 = "snd (get_crypto_block_for_object ex_remote_guest ''reserve'' basket1 ex_anon_instance)"
  let ?S2 = "snd (get_crypto_block ex_remote_guest ''reserve'' False ex_anon_instance)"
  have ok: "\<forall>api blk api1. ex_remote_guest api = (Inr blk, api1) \<longrightarrow> truthy (api_username api1)"
    by (auto simp: ex_remote_guest_def)
  have ok1: "truthy (api_username (snd (ex_remote_guest (CoreAPI no_args))))"
    by (simp add: ex_remote_guest_def)
  have "fst (get_crypto_block_for_object ex_remote_guest ''reserve'' basket1 ex_anon_instance)
          = Inr PyNone"
    by (simp add: eval_more)
  then have g1: "get_crypto_block_for_object ex_remote_guest ''reserve'' basket1 ex_anon_instance
                   = (Inr PyNone, ?S1)"
    by (simp add: prod_eq_iff)
  have np: "\<not> password_is_set ex_anon_instance"
    by (simp add: eval_more)
  have "fst (get_crypto_block ex_remote_guest ''reserve'' False ex_anon_instance) = Inr PyNone"
    by (simp add: eval_more)
  then have g2: "get_crypto_block ex_remote_guest ''reserve'' False ex_anon_instance
                   = (Inr PyNone, ?S2)"
    by (simp add: prod_eq_iff)
  note gets = key_derived_from_resolved_username
    [OF ok, where st = ex_anon_instance and method_name = "''reserve''" and obj = basket1
       and v = PyNone and ?st1.0 = ?S1 and password_required = False and w = PyNone
       and ?st2.0 = ?S2]
  note sets = key_derived_from_resolved_username
    [OF ok, where st = ex_user_instance and method_name = "''reserve''"
       and crypto_block = "PyStr ''blk''" and objs = "[basket1, basket2]"]
  from gets g1 have c1: "\<exists>u. dict_getitem (settings ?S1) ''username'' = Inr u \<and> truthy u"
    by blast
  from gets g2 np have c2: "\<exists>u. dict_getitem (settings ?S2) ''username'' = Inr u \<and> truthy u"
    by blast
  from sets ex_user_resolved obtain u st3 where
    u: "dict_getitem (settings ex_user_instance) ''username'' = Inr u" "truthy u"
    and sb: "set_crypto_block (PyStr ''blk'') ''reserve'' ex_user_instance
             = (Inr (), store_data (get_crypto_session_key u ''reserve'') (PyStr ''blk'') True
                          ex_user_instance)"
    and so: "set_crypto_for_objects (PyStr ''blk'') ''reserve'' [basket1, basket2]
                      ex_user_instance = (Inr (), st3)"
    and al: "\<forall>obj' \<in> set [basket1, basket2].
               retrieve_data (get_crypto_object_key u ''reserve'' obj') st3 = PyStr ''blk''"
    by blast
  from al have "retrieve_data (get_crypto_object_key u ''reserve'' basket2) st3 = PyStr ''blk''"
    by simp
  with u sb so have c3:
    "\<exists>u. dict_getitem (settings ex_user_instance) ''username'' = Inr u \<and> truthy u
         \<and> set_crypto_block (PyStr ''blk'') ''reserve'' ex_user_instance
             = (Inr (), store_data (get_crypto_session_key u ''reserve'') (PyStr ''blk'') True
                          ex_user_instance)
         \<and> (\<exists>st3. set_crypto_for_objects (PyStr ''blk'') ''reserve'' [basket1, basket2]
                      ex_user_instance = (Inr (), st3)
               \<and> retrieve_data (get_crypto_object_key u ''reserve'' basket2) st3
                   = PyStr ''blk'')"
    by blast
  from ok1 g1 c1 np g2 c2 ex_user_resolved c3 show ?thesis by blast
qed

section \<open>A second instance constructed before the bootstrap\<close>

lemmas eval_shared = eval_more ex_first_instance_def ex_second_instance_def

text \<open>
  C9. The claim: once a first instance, configured with a remote IP and a remote site and
  no username, has bootstrapped and cached its username in a shared store, a second
  instance configured with the same pair and no username resolves to that username without
  a second bootstrap. The code, for a second instance that was constructed over the same
  session before the first one bootstrapped: its settings hold no username, and
  \<^verbatim>\<open>get_username\<close> looks the cached username up, finds it, and returns
  \<^verbatim>\<open>settings['username']\<close>, which is still None. \<^verbatim>\<open>get_crypto_block\<close> on that instance
  does not consult the cache of usernames at all and bootstraps a second time.
\<close>

theorem second_instance_misses_cached_username:
  "fst (get_username ex_remote_guest ex_first_instance) = Inr (PyStr ''guest1'')
   \<and> remote_calls (snd (get_username ex_remote_guest ex_first_instance)) = 1
   \<and> get_cached_username (PyStr ''10.0.0.1'') (PyStr ''example.com'') ex_second_instance
       = PyStr ''guest1''
   \<and> get_username ex_remote_guest ex_second_instance = (Inr PyNone, ex_second_instance)
   \<and> remote_calls ex_second_instance = 0
   \<and> fst (get_crypto_block ex_remote_guest ''reserve'' True ex_second_instance) = Inr PyNone
   \<and> remote_calls (snd (get_crypto_block ex_remote_guest ''reserve'' True ex_second_instance))
       = 1"
  by (simp add: eval_shared)

section \<open>Reconfiguration\<close>

lemma clear_crypto_blocks_settings:
  "clear_crypto_blocks st = (r, st') \<Longrightarrow> settings st' = settings st \<and> core_api st' = core_api st \<and> remote_calls st' = remote_calls st"
  by (auto simp: clear_crypto_blocks_def Let_def split: prod.splits sum.splits option.splits)

lemma retrieve_data_after_clear:
  assumes "clear_crypto_blocks st = (Inr (), st1)"
    and "\<forall>s f k. session st = Some s \<and> sess_flush s = Some f \<and> prefix CRYPTO_PREFIX k
            \<longrightarrow> map_of (f (sess_data s)) k = None"
    and "prefix CRYPTO_PREFIX k"
  shows "retrieve_data k st1 = PyNone"
  using assms
  by (auto simp: clear_crypto_blocks_run retrieve_data_def dict_get_def sess_get_def
      map_of_filter_key sess_flush_crypto_blocks_def split: option.splits)

lemma get_crypto_block_miss:
  assumes clean: "\<forall>k. prefix CRYPTO_PREFIX k \<longrightarrow> retrieve_data k st = PyNone"
    and m: "m \<noteq> ''start_session''"
    and run: "get_crypto_block rem m pr st = (Inr v, st')"
  shows "v = PyNone"
proof (cases "pr \<or> (\<not> pr \<and> \<not> password_is_set st)")
  case False
  with run show ?thesis by (simp add: get_crypto_block_def)
next
  case gate: True
  show ?thesis
  proof (cases "truthy (dict_get (settings st) ''username'' (PyBool False))")
    case True
    with run gate m clean show ?thesis
      by (auto simp: get_crypto_block_def Let_def split: sum.splits)
  next
    case False
    with run gate m obtain c st1 u where
      ss: "start_session rem st = (Inr c, st1)"
      and u: "dict_getitem (settings st1) ''username'' = Inr u"
      and v: "v = retrieve_data (get_crypto_session_key u m) st1"
      by (auto simp: get_crypto_block_def Let_def split: sum.splits prod.splits)
    from start_session_crypto_keys [OF ss u, of "get_crypto_session_key u m"] m clean v
    show ?thesis by simp
  qed
qed

lemma get_crypto_block_resolved:
  assumes "dict_getitem (settings st) ''username'' = Inr u" and "truthy u"
    and "m \<noteq> ''start_session''" and "pr \<or> \<not> password_is_set st"
  shows "get_crypto_block rem m pr st = (Inr (retrieve_data (get_crypto_session_key u m) st), st)"
  using assms by (auto simp: get_crypto_block_def dict_getitem_def dict_get_def Let_def split: option.splits)

lemma ex_flush_removes:
  "prefix CRYPTO_PREFIX k \<Longrightarrow> map_of (ex_flush d) k = None"
  by (simp add: ex_flush_def map_of_filter_key)

lemma get_crypto_block_start_session_fresh:
  assumes clean: "\<forall>k. prefix CRYPTO_PREFIX k \<longrightarrow> retrieve_data k st = PyNone"
    and gate: "pr \<or> \<not> password_is_set st"
    and run: "get_crypto_block rem ''start_session'' pr st = (Inr v, st')"
  shows "remote_calls st < remote_calls st' \<and> (\<exists>api api1. rem api = (Inr v, api1))"
proof -
  from run gate obtain c st1 u where
    first: "(if \<not> truthy (dict_get (settings st) ''username'' (PyBool False))
               then start_session rem st else (Inr PyNone, st)) = (Inr c, st1)"
    and u: "dict_getitem (settings st1) ''username'' = Inr u"
    and rest: "(if \<not> truthy (retrieve_data (get_crypto_session_key u ''start_session'') st1)
                then (if truthy c then (Inr c, st1) else start_session rem st1)
                else (Inr (retrieve_data (get_crypto_session_key u ''start_session'') st1), st1))
               = (Inr v, st')"
    by (auto simp: get_crypto_block_def Let_def split: sum.splits prod.splits)
  show ?thesis
  proof (cases "truthy (dict_get (settings st) ''username'' (PyBool False))")
    case True
    with first have eq: "st1 = st" "c = PyNone" by simp_all
    have "retrieve_data (get_crypto_session_key u ''start_session'') st = PyNone"
      using clean by simp
    with rest eq have "start_session rem st = (Inr v, st')" by simp
    from start_session_resolves [OF this] show ?thesis by auto
  next
    case False
    with first have ss: "start_session rem st = (Inr c, st1)" by simp
    from start_session_resolves [OF ss] obtain api api1 where
      r: "rem api = (Inr c, api1)" and n: "remote_calls st1 = Suc (remote_calls st)"
      by blast
    have look: "retrieve_data (get_crypto_session_key u ''start_session'') st1
                  = (if truthy c then c else PyNone)"
      using start_session_crypto_keys [OF ss u, of "get_crypto_session_key u ''start_session''"]
        clean by simp
    show ?thesis
    proof (cases "truthy c")
      case True
      with rest look have "v = c" "st' = st1" by simp_all
      with r n show ?thesis by auto
    next
      case False
      with rest look have "start_session rem st1 = (Inr v, st')" by simp
      from start_session_resolves [OF this] n show ?thesis by auto
    qed
  qed
qed

lemmas eval_conf = eval_more ex_bob_cached_def ex_bob_moved_args_def ex_cached_instance_def
  ex_flush_session_def ex_crypto_session_def ex_flush_def ex_alice_args_def
  clear_crypto_blocks_def dict_keys_def dict_delitem_def dict_contains_def
  sess_flush_crypto_blocks_def sess_delitem_def

text \<open>
  Two reconfigurations the code answers otherwise than by a purge followed by an absent
  block. One supplies a remote IP where none was configured before: the instance of bob
  keeps its cached block, and \<^verbatim>\<open>get_crypto_block\<close> still returns it. The other changes
  the user from bob to alice, which purges the block that was cached for start_session;
  \<^verbatim>\<open>get_crypto_block\<close> for start_session then bootstraps and returns the block of the
  new session.
\<close>

theorem reconfigure_counterexample:
  "dict_getitem (settings ex_bob_cached) ''remote_ip'' = Inr PyNone
   \<and> a_remote_ip ex_bob_moved_args = PyStr ''10.0.0.1''
   \<and> fst (get_crypto_block ex_remote_fail ''reserve'' True ex_bob_cached) = Inr (PyStr ''blk'')
   \<and> fst (configure ex_defaults ex_bob_moved_args ex_bob_cached) = Inr ()
   \<and> fst (get_crypto_block ex_remote_fail ''reserve'' True
             (snd (configure ex_defaults ex_bob_moved_args ex_bob_cached)))
       = Inr (PyStr ''blk'')
   \<and> retrieve_data ''CRYPTO_BLOCK_bob_start_session'' (ex_cached_instance (Some ex_flush_session))
       = PyStr ''blk''
   \<and> fst (configure ex_defaults ex_alice_args (ex_cached_instance (Some ex_flush_session)))
       = Inr ()
   \<and> fst (get_crypto_block ex_remote_guest ''start_session'' True
             (snd (configure ex_defaults ex_alice_args
                     (ex_cached_instance (Some ex_flush_session)))))
       = Inr (PyStr ''boot'')"
  by (simp add: eval_conf)

text \<open>
  C1, amended. \<^verbatim>\<open>_configure\<close> purges when a previously configured identity value is
  non-empty and differs from the one being adopted: the old username against the username
  that will be adopted (the one supplied or, when none is supplied but remote IP and remote
  site are, the one cached for them), the old remote IP or remote site against the supplied
  one. Then \<^verbatim>\<open>_clear_crypto_blocks\<close> runs on the instance while it still has its old
  settings, and only after that are the new settings and the new remote client adopted.
  Provided a session's own \<^verbatim>\<open>flush_crypto_blocks\<close> removes the keys with the crypto
  prefix, no such key can be retrieved afterwards. A later \<^verbatim>\<open>get_crypto_block\<close> that
  returns gives None for every method other than start_session; for start_session it gives
  None behind the password gate, and otherwise it has called the remote client again and
  gives a block that the remote client returned in that call. When no previously
  configured non-empty value differs, nothing is purged: the new settings and the new
  remote client are adopted and both stores stay as they are.
\<close>

theorem reconfigure_purges_crypto_blocks:
  assumes flush: "\<forall>s f k. session st = Some s \<and> sess_flush s = Some f \<and> prefix CRYPTO_PREFIX k
            \<longrightarrow> map_of (f (sess_data s)) k = None"
  shows "(identity_changed (settings st) ''username'' (configured_username a st)
           \<or> identity_changed (settings st) ''remote_ip'' (a_remote_ip a)
           \<or> identity_changed (settings st) ''remote_site'' (a_remote_site a) \<longrightarrow>
          (\<exists>st1 st'. clear_crypto_blocks st = (Inr (), st1)
             \<and> settings st1 = settings st
             \<and> st' = st1\<lparr>settings :=
                  get_settings (apply_defaults ds (a\<lparr>a_username := configured_username a st\<rparr>)),
                core_api :=
                  Some (CoreAPI (apply_defaults ds (a\<lparr>a_username := configured_username a st\<rparr>)))\<rparr>
             \<and> configure ds a st = (Inr (), st')
             \<and> (\<forall>k. prefix CRYPTO_PREFIX k \<longrightarrow> retrieve_data k st' = PyNone)
             \<and> (\<forall>method_name password_required v st''.
                   method_name \<noteq> ''start_session''
                   \<and> get_crypto_block rem method_name password_required st' = (Inr v, st'')
                   \<longrightarrow> v = PyNone)
             \<and> (\<forall>password_required v st''.
                   get_crypto_block rem ''start_session'' password_required st' = (Inr v, st'')
                   \<longrightarrow> (if password_required \<or> \<not> password_is_set st'
                        then remote_calls st' < remote_calls st''
                             \<and> (\<exists>api api1. rem api = (Inr v, api1))
                        else v = PyNone \<and> st'' = st'))))
     \<and> (\<not> (identity_changed (settings st) ''username'' (configured_username a st)
            \<or> identity_changed (settings st) ''remote_ip'' (a_remote_ip a)
            \<or> identity_changed (settings st) ''remote_site'' (a_remote_site a)) \<longrightarrow>
          configure ds a st =
            (Inr (),
             st\<lparr>settings :=
                  get_settings (apply_defaults ds (a\<lparr>a_username := configured_username a st\<rparr>)),
                core_api :=
                  Some (CoreAPI (apply_defaults ds (a\<lparr>a_username := configured_username a st\<rparr>)))\<rparr>))"
proof (intro conjI impI)
  assume changed: "identity_changed (settings st) ''username'' (configured_username a st)
           \<or> identity_changed (settings st) ''remote_ip'' (a_remote_ip a)
           \<or> identity_changed (settings st) ''remote_site'' (a_remote_site a)"
  from clear_crypto_blocks_run [of st] obtain st1 where
    c: "clear_crypto_blocks st = (Inr (), st1)" by blast
  let ?a1 = "apply_defaults ds (a\<lparr>a_username := configured_username a st\<rparr>)"
  let ?st' = "st1\<lparr>settings := get_settings ?a1, core_api := Some (CoreAPI ?a1)\<rparr>"
  have s: "settings st1 = settings st"
    using clear_crypto_blocks_settings [OF c] by simp
  have conf: "configure ds a st = (Inr (), ?st')"
    using changed c by (simp add: configure_def Let_def)
  have clean: "\<forall>k. prefix CRYPTO_PREFIX k \<longrightarrow> retrieve_data k ?st' = PyNone"
    using retrieve_data_after_clear [OF c flush] by simp
  have other: "\<forall>method_name password_required v st''.
           method_name \<noteq> ''start_session''
           \<and> get_crypto_block rem method_name password_required ?st' = (Inr v, st'')
           \<longrightarrow> v = PyNone"
    using get_crypto_block_miss [OF clean] by blast
  have boot: "\<forall>password_required v st''.
           get_crypto_block rem ''start_session'' password_required ?st' = (Inr v, st'')
           \<longrightarrow> (if password_required \<or> \<not> password_is_set ?st'
                then remote_calls ?st' < remote_calls st''
                     \<and> (\<exists>api api1. rem api = (Inr v, api1))
                else v = PyNone \<and> st'' = ?st')"
  proof (intro allI impI)
    fix password_required v st''
    assume run: "get_crypto_block rem ''start_session'' password_required ?st' = (Inr v, st'')"
    show "if password_required \<or> \<not> password_is_set ?st'
          then remote_calls ?st' < remote_calls st'' \<and> (\<exists>api api1. rem api = (Inr v, api1))
          else v = PyNone \<and> st'' = ?st'"
    proof (cases "password_required \<or> \<not> password_is_set ?st'")
      case True
      from get_crypto_block_start_session_fresh [OF clean True run] True
      show ?thesis by simp
    next
      case False
      with run show ?thesis by (auto simp: get_crypto_block_def)
    qed
  qed
  from c s conf clean other boot
  show "\<exists>st1 st'. clear_crypto_blocks st = (Inr (), st1)
             \<and> settings st1 = settings st
             \<and> st' = st1\<lparr>settings :=
                  get_settings (apply_defaults ds (a\<lparr>a_username := configured_username a st\<rparr>)),
                core_api :=
                  Some (CoreAPI (apply_defaults ds (a\<lparr>a_username := configured_username a st\<rparr>)))\<rparr>
             \<and> configure ds a st = (Inr (), st')
             \<and> (\<forall>k. prefix CRYPTO_PREFIX k \<longrightarrow> retrieve_data k st' = PyNone)
             \<and> (\<forall>method_name password_required v st''.
                   method_name \<noteq> ''start_session''
                   \<and> get_crypto_block rem method_name password_required st' = (Inr v, st'')
                   \<longrightarrow> v = PyNone)
             \<and> (\<forall>password_required v st''.
                   get_crypto_block rem ''start_session'' password_required st' = (Inr v, st'')
                   \<longrightarrow> (if password_required \<or> \<not> password_is_set st'
                        then remote_calls st' < remote_calls st''
                             \<and> (\<exists>api api1. rem api = (Inr v, api1))
                        else v = PyNone \<and> st'' = st'))"
    by blast
next
  assume "\<not> (identity_changed (settings st) ''username'' (configured_username a st)
            \<or> identity_changed (settings st) ''remote_ip'' (a_remote_ip a)
            \<or> identity_changed (settings st) ''remote_site'' (a_remote_site a))"
  then show "configure ds a st =
            (Inr (),
             st\<lparr>settings :=
                  get_settings (apply_defaults ds (a\<lparr>a_username := configured_username a st\<rparr>)),
                core_api :=
                  Some (CoreAPI (apply_defaults ds (a\<lparr>a_username := configured_username a st\<rparr>)))\<rparr>)"
    by (simp add: configure_def Let_def)
qed

theorem reconfigure_purges_crypto_blocks_witness:
  "identity_changed (settings (ex_cached_instance (Some ex_flush_session))) ''username''
     (configured_username ex_alice_args (ex_cached_instance (Some ex_flush_session)))
   \<and> session (ex_cached_instance (Some ex_flush_session)) = Some ex_flush_session
   \<and> sess_flush ex_flush_session = Some ex_flush
   \<and> map_of (ex_flush (sess_data ex_flush_session)) ''CRYPTO_BLOCK_bob_reserve'' = None
   \<and> retrieve_data ''CRYPTO_BLOCK_bob_start_session'' (ex_cached_instance (Some ex_flush_session))
       = PyStr ''blk''
   \<and> (\<exists>st'. configure ex_defaults ex_alice_args (ex_cached_instance (Some ex_flush_session))
               = (Inr (), st')
         \<and> retrieve_data ''CRYPTO_BLOCK_bob_start_session'' st' = PyNone
         \<and> retrieve_data ''CRYPTO_BLOCK_bob_reserve'' st' = PyNone
         \<and> get_crypto_block ex_remote_guest ''reserve'' True st' = (Inr PyNone, st')
         \<and> fst (get_crypto_block ex_remote_guest ''start_session'' True st')
             = Inr (PyStr ''boot'')
         \<and> remote_calls st'
             < remote_calls (snd (get_crypto_block ex_remote_guest ''start_session'' True st')))
   \<and> \<not> identity_changed (settings ex_bob_cached) ''username''
         (configured_username ex_bob_moved_args ex_bob_cached)
   \<and> \<not> identity_changed (settings ex_bob_cached) ''remote_ip'' (a_remote_ip ex_bob_moved_args)
   \<and> \<not> identity_changed (settings ex_bob_cached) ''remote_site''
         (a_remote_site ex_bob_moved_args)
   \<and> fst (configure ex_defaults ex_bob_moved_args ex_bob_cached) = Inr ()
   \<and> session_store (snd (configure ex_defaults ex_bob_moved_args ex_bob_cached))
       = session_store ex_bob_cached
   \<and> session (snd (configure ex_defaults ex_bob_moved_args ex_bob_cached))
       = session ex_bob_cached"
proof -
  let ?st = "ex_cached_instance (Some ex_flush_session)"
  have ch: "identity_changed (settings ?st) ''username'' (configured_username ex_alice_args ?st)
           \<or> identity_changed (settings ?st) ''remote_ip'' (a_remote_ip ex_alice_args)
           \<or> identity_changed (settings ?st) ''remote_site'' (a_remote_site ex_alice_args)"
    and ch1: "identity_changed (settings ?st) ''username'' (configured_username ex_alice_args ?st)"
    by (simp_all add: ex_cached_instance_def ex_alice_args_def ex_site_args_def get_settings_def
        no_args_def identity_changed_def configured_username_def)
  have s: "session ?st = Some ex_flush_session" by (simp add: ex_cached_instance_def)
  have f: "sess_flush ex_flush_session = Some ex_flush" by (simp add: ex_flush_session_def)
  have fl: "\<forall>s f k. session ?st = Some s \<and> sess_flush s = Some f \<and> prefix CRYPTO_PREFIX k
            \<longrightarrow> map_of (f (sess_data s)) k = None"
    using s f by (simp add: ex_flush_removes)
  have before: "retrieve_data ''CRYPTO_BLOCK_bob_start_session'' ?st = PyStr ''blk''"
    by (simp add: retrieve_data_def ex_cached_instance_def dict_get_def)
  note purge = reconfigure_purges_crypto_blocks
    [OF fl, where ds = ex_defaults and a = ex_alice_args and rem = ex_remote_guest,
     THEN conjunct1, THEN mp, OF ch]
  from purge obtain st1 where "\<exists>st'. clear_crypto_blocks ?st = (Inr (), st1)
      \<and> settings st1 = settings ?st
      \<and> st' = st1\<lparr>settings :=
                    get_settings (apply_defaults ex_defaults
                      (ex_alice_args\<lparr>a_username := configured_username ex_alice_args ?st\<rparr>)),
                  core_api :=
                    Some (CoreAPI (apply_defaults ex_defaults
                      (ex_alice_args\<lparr>a_username := configured_username ex_alice_args ?st\<rparr>)))\<rparr>
      \<and> configure ex_defaults ex_alice_args ?st = (Inr (), st')
      \<and> (\<forall>k. prefix CRYPTO_PREFIX k \<longrightarrow> retrieve_data k st' = PyNone)
      \<and> (\<forall>method_name password_required v st''.
           method_name \<noteq> ''start_session''
           \<and> get_crypto_block ex_remote_guest method_name password_required st' = (Inr v, st'')
           \<longrightarrow> v = PyNone)
      \<and> (\<forall>password_required v st''.
           get_crypto_block ex_remote_guest ''start_session'' password_required st' = (Inr v, st'')
           \<longrightarrow> (if password_required \<or> \<not> password_is_set st'
                then remote_calls st' < remote_calls st''
                     \<and> (\<exists>api api1. ex_remote_guest api = (Inr v, api1))
                else v = PyNone \<and> st'' = st'))" ..
  then obtain st' where all: "clear_crypto_blocks ?st = (Inr (), st1)
      \<and> settings st1 = settings ?st
      \<and> st' = st1\<lparr>settings :=
                    get_settings (apply_defaults ex_defaults
                      (ex_alice_args\<lparr>a_username := configured_username ex_alice_args ?st\<rparr>)),
                  core_api :=
                    Some (CoreAPI (apply_defaults ex_defaults
                      (ex_alice_args\<lparr>a_username := configured_username ex_alice_args ?st\<rparr>)))\<rparr>
      \<and> configure ex_defaults ex_alice_args ?st = (Inr (), st')
      \<and> (\<forall>k. prefix CRYPTO_PREFIX k \<longrightarrow> retrieve_data k st' = PyNone)
      \<and> (\<forall>method_name password_required v st''.
           method_name \<noteq> ''start_session''
           \<and> get_crypto_block ex_remote_guest method_name password_required st' = (Inr v, st'')
           \<longrightarrow> v = PyNone)
      \<and> (\<forall>password_required v st''.
           get_crypto_block ex_remote_guest ''start_session'' password_required st' = (Inr v, st'')
           \<longrightarrow> (if password_required \<or> \<not> password_is_set st'
                then remote_calls st' < remote_calls st''
                     \<and> (\<exists>api api1. ex_remote_guest api = (Inr v, api1))
                else v = PyNone \<and> st'' = st'))" ..
  note st' = all [THEN conjunct2, THEN conjunct2, THEN conjunct1]
  note conf = all [THEN conjunct2, THEN conjunct2, THEN conjunct2, THEN conjunct1]
  note clean = all [THEN conjunct2, THEN conjunct2, THEN conjunct2, THEN conjunct2, THEN conjunct1]
  note miss = all [THEN conjunct2, THEN conjunct2, THEN conjunct2, THEN conjunct2,
                   THEN conjunct2, THEN conjunct1]
  note boot = all [THEN conjunct2, THEN conjunct2, THEN conjunct2, THEN conjunct2,
                   THEN conjunct2, THEN conjunct2]
  have u: "dict_getitem (settings st') ''username'' = Inr (PyStr ''alice'')"
    by (simp add: st' configured_username_def ex_alice_args_def)
  have eq: "get_crypto_block ex_remote_guest ''reserve'' True st'
          = (Inr (retrieve_data (get_crypto_session_key (PyStr ''alice'') ''reserve'') st'), st')"
    by (rule get_crypto_block_resolved [OF u]) simp_all
  have "retrieve_data (get_crypto_session_key (PyStr ''alice'') ''reserve'') st' = PyNone"
    by (rule miss [rule_format, OF conjI [OF _ eq]]) simp
  with eq have g: "get_crypto_block ex_remote_guest ''reserve'' True st' = (Inr PyNone, st')"
    by simp
  have k: "retrieve_data ''CRYPTO_BLOCK_bob_start_session'' st' = PyNone"
       "retrieve_data ''CRYPTO_BLOCK_bob_reserve'' st' = PyNone"
    using clean by (simp_all add: CRYPTO_PREFIX_def)
  have st'_eq: "st' = snd (configure ex_defaults ex_alice_args ?st)"
    using conf by simp
  have "fst (get_crypto_block ex_remote_guest ''start_session'' True
               (snd (configure ex_defaults ex_alice_args ?st))) = Inr (PyStr ''boot'')"
    by (simp add: eval_conf)
  then have b1: "fst (get_crypto_block ex_remote_guest ''start_session'' True st')
                   = Inr (PyStr ''boot'')"
    by (simp only: st'_eq)
  then have run: "get_crypto_block ex_remote_guest ''start_session'' True st'
         = (Inr (PyStr ''boot''), snd (get_crypto_block ex_remote_guest ''start_session'' True st'))"
    by (simp add: prod_eq_iff)
  from boot [rule_format, OF run]
  have b2: "remote_calls st'
             < remote_calls (snd (get_crypto_block ex_remote_guest ''start_session'' True st'))"
    by simp
  have first: "\<exists>st'. configure ex_defaults ex_alice_args ?st = (Inr (), st')
         \<and> retrieve_data ''CRYPTO_BLOCK_bob_start_session'' st' = PyNone
         \<and> retrieve_data ''CRYPTO_BLOCK_bob_reserve'' st' = PyNone
         \<and> get_crypto_block ex_remote_guest ''reserve'' True st' = (Inr PyNone, st')
         \<and> fst (get_crypto_block ex_remote_guest ''start_session'' True st')
             = Inr (PyStr ''boot'')
         \<and> remote_calls st'
             < remote_calls (snd (get_crypto_block ex_remote_guest ''start_session'' True st'))"
    using conf k g b1 b2 by blast
  have nc: "\<not> identity_changed (settings ex_bob_cached) ''username''
               (configured_username ex_bob_moved_args ex_bob_cached)"
       "\<not> identity_changed (settings ex_bob_cached) ''remote_ip'' (a_remote_ip ex_bob_moved_args)"
       "\<not> identity_changed (settings ex_bob_cached) ''remote_site''
               (a_remote_site ex_bob_moved_args)"
    by (simp_all add: ex_bob_cached_def ex_bob_moved_args_def get_settings_def no_args_def
        identity_changed_def configured_username_def)
  have nofl: "\<forall>s f k. session ex_bob_cached = Some s \<and> sess_flush s = Some f
            \<and> prefix CRYPTO_PREFIX k \<longrightarrow> map_of (f (sess_data s)) k = None"
    by (simp add: ex_bob_cached_def)
  from nc have nc': "\<not> (identity_changed (settings ex_bob_cached) ''username''
               (configured_username ex_bob_moved_args ex_bob_cached)
            \<or> identity_changed (settings ex_bob_cached) ''remote_ip''
                 (a_remote_ip ex_bob_moved_args)
            \<or> identity_changed (settings ex_bob_cached) ''remote_site''
                 (a_remote_site ex_bob_moved_args))"
    by simp
  note keep = reconfigure_purges_crypto_blocks
    [OF nofl, where ds = ex_defaults and a = ex_bob_moved_args and rem = ex_remote_guest,
     THEN conjunct2, THEN mp, OF nc']
  from keep have second: "fst (configure ex_defaults ex_bob_moved_args ex_bob_cached) = Inr ()"
    "session_store (snd (configure ex_defaults ex_bob_moved_args ex_bob_cached))
       = session_store ex_bob_cached"
    "session (snd (configure ex_defaults ex_bob_moved_args ex_bob_cached))
       = session ex_bob_cached"
    by simp_all
  have fm: "map_of (ex_flush (sess_data ex_flush_session)) ''CRYPTO_BLOCK_bob_reserve'' = None"
    by (simp add: ex_flush_removes CRYPTO_PREFIX_def)
  from ch1 s f fm before first nc second show ?thesis
    by blast
qed

end
